theory Spec2Isabelle
  imports Main "HOL-Library.Word"
begin

section \<open>Python text\<close>

text \<open>
  A Python \<open>str\<close> is modelled as a \<open>string\<close>: each \<open>char\<close> stands for one code point
  below 256. The text of a file is the text as \<open>f.read()\<close> returns it (decoded, newlines
  already translated), and the text written is the text handed to \<open>out.write\<close>.
\<close>

abbreviation nl :: char where
  "nl \<equiv> CHR 0x0A"

text \<open>
  \<open>str.strip()\<close> without argument removes the code points that \<open>str.isspace\<close> accepts:
  below 256 these are 9 to 13, 28 to 32, 133 and 160.
\<close>

definition py_isspace :: "char \<Rightarrow> bool" where
  "py_isspace c =
     (let n = (of_char c :: nat)
      in (9 \<le> n \<and> n \<le> 13) \<or> (28 \<le> n \<and> n \<le> 32) \<or> n = 133 \<or> n = 160)"

definition py_strip :: "string \<Rightarrow> string" where
  "py_strip s = rev (dropWhile py_isspace (rev (dropWhile py_isspace s)))"

text \<open>\<open>s.split('\n')\<close>: the pieces between newlines; never an empty list.\<close>

fun split_nl :: "string \<Rightarrow> string list" where
  "split_nl [] = [[]]"
| "split_nl (c # cs) =
     (if c = nl then [] # split_nl cs
      else (case split_nl cs of
              [] \<Rightarrow> [[c]]
            | l # ls \<Rightarrow> (c # l) # ls))"

text \<open>\<open>"\n".join(xs)\<close>.\<close>

fun join_nl :: "string list \<Rightarrow> string" where
  "join_nl [] = []"
| "join_nl [x] = x"
| "join_nl (x # y # ys) = x @ nl # join_nl (y # ys)"

text \<open>\<open>str(n)\<close> of an integer, as an f-string renders it: decimal, \<open>-\<close> for negatives.\<close>

definition digit_char :: "nat \<Rightarrow> char" where
  "digit_char n = ''0123456789'' ! n"

function str_nat :: "nat \<Rightarrow> string" where
  "str_nat n = (if n < 10 then [digit_char n] else str_nat (n div 10) @ [digit_char (n mod 10)])"
  by pat_completeness auto
termination
  by (relation "measure id") auto

declare str_nat.simps [simp del]

definition str_int :: "int \<Rightarrow> string" where
  "str_int i = (if i < 0 then CHR ''-'' # str_nat (nat (- i)) else str_nat (nat i))"

section \<open>The rendered document\<close>

definition PLUGIN_NAME :: string where
  "PLUGIN_NAME = ''ORCA xyz2inp GUI''"

text \<open>
  The seven \<open>out.write\<close> calls of \<open>generate_file\<close>, in order. The arguments are the values
  read from the four spin boxes, the stripped template and the coordinate lines.
\<close>

definition pal_line :: "int \<Rightarrow> string" where
  "pal_line nprocs = ''%pal nprocs '' @ str_int nprocs @ '' end''"

definition maxcore_line :: "int \<Rightarrow> string" where
  "maxcore_line maxcore = ''%MaxCore '' @ str_int maxcore"

definition xyz_line :: "int \<Rightarrow> int \<Rightarrow> string" where
  "xyz_line charge mult = ''* xyz '' @ str_int charge @ '' '' @ str_int mult"

definition written_text :: "int \<Rightarrow> int \<Rightarrow> int \<Rightarrow> int \<Rightarrow> string \<Rightarrow> string \<Rightarrow> string" where
  "written_text charge mult nprocs maxcore template_content coords_data =
     (''# Generated by MoleditPy ('' @ PLUGIN_NAME @ '')'' @ [nl]) @
     (pal_line nprocs @ [nl]) @
     (maxcore_line maxcore @ [nl, nl]) @
     (template_content @ [nl, nl]) @
     (xyz_line charge mult @ [nl]) @
     (coords_data @ [nl]) @
     (''*'' @ [nl])"

section \<open>Python \<open>int(s)\<close>\<close>

datatype exn = ValueError | OverflowError

text \<open>
  \<open>int(s)\<close> on a \<open>str\<close>, base 10, as CPython parses it: surrounding whitespace is skipped
  (below 256: code points 9 to 13 and 32, and the non-ASCII spaces 133 and 160), then an
  optional sign, then decimal digits with single underscores allowed between two digits.
  A text with more than 4300 digits is refused (CPython's default limit for the conversion).
  Every refusal is a \<open>ValueError\<close>.
\<close>

definition int_isspace :: "char \<Rightarrow> bool" where
  "int_isspace c =
     (let n = (of_char c :: nat)
      in (9 \<le> n \<and> n \<le> 13) \<or> n = 32 \<or> n = 133 \<or> n = 160)"

definition is_digit :: "char \<Rightarrow> bool" where
  "is_digit c = (let n = (of_char c :: nat) in 48 \<le> n \<and> n \<le> 57)"

definition digit_val :: "char \<Rightarrow> int" where
  "digit_val c = of_char c - 48"

fun digits_val :: "int \<Rightarrow> string \<Rightarrow> int option" where
  "digits_val acc [] = Some acc"
| "digits_val acc [c] = (if is_digit c then Some (10 * acc + digit_val c) else None)"
| "digits_val acc (c # d # ds) =
     (if is_digit c then digits_val (10 * acc + digit_val c) (d # ds)
      else if c = CHR ''_'' \<and> is_digit d then digits_val (10 * acc + digit_val d) ds
      else None)"

definition parse_unsigned :: "string \<Rightarrow> int option" where
  "parse_unsigned s =
     (case s of
        [] \<Rightarrow> None
      | c # cs \<Rightarrow>
          if \<not> is_digit c then None
          else if length (filter is_digit s) > 4300 then None
          else digits_val (digit_val c) cs)"

definition py_int :: "string \<Rightarrow> exn + int" where
  "py_int s =
     (case rev (dropWhile int_isspace (rev (dropWhile int_isspace s))) of
        [] \<Rightarrow> Inl ValueError
      | c # cs \<Rightarrow>
          (case (if c = CHR ''-'' then map_option uminus (parse_unsigned cs)
                 else if c = CHR ''+'' then parse_unsigned cs
                 else parse_unsigned (c # cs)) of
             None \<Rightarrow> Inl ValueError
           | Some v \<Rightarrow> Inr v))"

section \<open>Spin boxes\<close>

text \<open>
  A \<open>QSpinBox\<close> holds a C++ \<open>int\<close> between its minimum and its maximum. A new one has
  range 0 to 99 and value 0. \<open>setRange\<close> and \<open>setValue\<close> bring the value into the range.
  Called from Python, the argument is first converted to a C++ \<open>int\<close>: PyQt6 raises
  \<open>OverflowError\<close> for a Python integer outside \<open>-2147483648 .. 2147483647\<close>.
\<close>

record spinbox =
  sb_min :: int
  sb_max :: int
  sb_value :: int

definition QSpinBox :: spinbox where
  "QSpinBox = \<lparr>sb_min = 0, sb_max = 99, sb_value = 0\<rparr>"

definition bound :: "spinbox \<Rightarrow> int \<Rightarrow> int" where
  "bound sb v = (if v < sb_min sb then sb_min sb else if v > sb_max sb then sb_max sb else v)"

definition c_int_ok :: "int \<Rightarrow> bool" where
  "c_int_ok v = (- 2147483648 \<le> v \<and> v \<le> 2147483647)"

definition setRange :: "int \<Rightarrow> int \<Rightarrow> spinbox \<Rightarrow> exn + spinbox" where
  "setRange lo hi sb =
     (if c_int_ok lo \<and> c_int_ok hi
      then (let sb' = sb\<lparr>sb_min := lo, sb_max := (if lo < hi then hi else lo)\<rparr>
            in Inr (sb'\<lparr>sb_value := bound sb' (sb_value sb)\<rparr>))
      else Inl OverflowError)"

definition setValue :: "int \<Rightarrow> spinbox \<Rightarrow> exn + spinbox" where
  "setValue v sb =
     (if c_int_ok v then Inr (sb\<lparr>sb_value := bound sb v\<rparr>) else Inl OverflowError)"

text \<open>Sequencing of calls that may raise: the first exception ends the sequence.\<close>

definition then_do :: "exn + 'a \<Rightarrow> ('a \<Rightarrow> exn + 'b) \<Rightarrow> exn + 'b" where
  "then_do r f = (case r of Inl e \<Rightarrow> Inl e | Inr x \<Rightarrow> f x)"

section \<open>The host application and the dialog\<close>

text \<open>
  The molecule is an RDKit object of the host. The plugin consumes it through three calls
  only, so the model holds their results: \<open>Chem.GetFormalCharge(mol)\<close> (a C++ \<open>int\<close>,
  read with \<open>sint\<close>), \<open>atom.GetNumRadicalElectrons()\<close> for each atom of
  \<open>mol.GetAtoms()\<close> (a C++ \<open>unsigned int\<close> each, read with \<open>unat\<close>) and
  \<open>Chem.MolToXYZBlock(mol)\<close>.
\<close>

record molecule =
  formal_charge :: "32 word"
  radical_electrons :: "32 word list"
  xyz_block :: string

text \<open>
  The two attributes of the host's main window that the plugin reads. \<open>None\<close> stands for
  an attribute that is \<open>None\<close> or, where the code asks with \<open>hasattr\<close>, missing. An
  RDKit molecule is truthy whatever it holds; a path is falsy when it is empty.
\<close>

record main_window =
  current_mol :: "molecule option"
  current_file_path :: "string option"

record dialog =
  le_template :: string
  le_suffix :: string
  sb_charge :: spinbox
  sb_mult :: spinbox
  sb_nprocs :: spinbox
  sb_maxcore :: spinbox

text \<open>
  \<open>setup_ui\<close>: the two line edits start empty; each spin box is created, given its range
  and then its initial value. (Step size and suffix of the memory field do not change its
  value and are left out.)
\<close>

definition new_spinbox :: "int \<Rightarrow> int \<Rightarrow> int \<Rightarrow> exn + spinbox" where
  "new_spinbox lo hi v = then_do (setRange lo hi QSpinBox) (setValue v)"

definition setup_ui :: "exn + dialog" where
  "setup_ui =
     then_do (new_spinbox (- 10) 10 0) (\<lambda>charge.
     then_do (new_spinbox 1 10 1) (\<lambda>mult.
     then_do (new_spinbox 1 128 1) (\<lambda>nprocs.
     then_do (new_spinbox 100 100000 1000) (\<lambda>maxcore.
       Inr \<lparr>le_template = [], le_suffix = [],
            sb_charge = charge, sb_mult = mult,
            sb_nprocs = nprocs, sb_maxcore = maxcore\<rparr>))))"

text \<open>
  \<open>load_defaults\<close>. An environment override is read with \<open>int\<close> and set; only
  \<open>ValueError\<close> is caught there. The estimate of charge and multiplicity runs under
  \<open>except Exception\<close>, which prints the exception and goes on: the second component of
  the result is what was printed. (Only \<open>setValue\<close> can raise in the estimate, so the
  text of a \<open>ValueError\<close> is never printed.)
\<close>

definition str_exn :: "exn \<Rightarrow> string" where
  "str_exn e =
     (case e of
        ValueError \<Rightarrow> ''invalid literal for int() with base 10''
      | OverflowError \<Rightarrow>
          ''argument 1 overflowed: value must be in the range -2147483648 to 2147483647'')"

definition env_override :: "(string \<rightharpoonup> string) \<Rightarrow> string \<Rightarrow> spinbox \<Rightarrow> exn + spinbox" where
  "env_override environ key sb =
     (case environ key of
        None \<Rightarrow> Inr sb
      | Some s \<Rightarrow>
          (case then_do (py_int s) (\<lambda>val. setValue val sb) of
             Inl ValueError \<Rightarrow> Inr sb
           | Inl e \<Rightarrow> Inl e
           | Inr sb' \<Rightarrow> Inr sb'))"

definition num_radical_electrons :: "molecule \<Rightarrow> int" where
  "num_radical_electrons mol = int (sum_list (map unat (radical_electrons mol)))"

definition estimate :: "main_window \<Rightarrow> dialog \<Rightarrow> dialog \<times> string list" where
  "estimate mw d =
     (case current_mol mw of
        None \<Rightarrow> (d, [])
      | Some mol \<Rightarrow>
          (case setValue (sint (formal_charge mol)) (sb_charge d) of
             Inl e \<Rightarrow> (d, [''Error estimating charge/multiplicity: '' @ str_exn e])
           | Inr charge \<Rightarrow>
               (let d1 = d\<lparr>sb_charge := charge\<rparr>;
                    multiplicity = num_radical_electrons mol + 1
                in case setValue multiplicity (sb_mult d1) of
                     Inl e \<Rightarrow> (d1, [''Error estimating charge/multiplicity: '' @ str_exn e])
                   | Inr mult \<Rightarrow> (d1\<lparr>sb_mult := mult\<rparr>, []))))"

definition load_defaults ::
  "(string \<rightharpoonup> string) \<Rightarrow> main_window \<Rightarrow> dialog \<Rightarrow> exn + dialog \<times> string list" where
  "load_defaults environ mw d =
     then_do (env_override environ ''orca_xyz2inp_nprocs'' (sb_nprocs d)) (\<lambda>nprocs.
     then_do (env_override environ ''orca_xyz2inp_maxcore'' (sb_maxcore d)) (\<lambda>maxcore.
       Inr (estimate mw (d\<lparr>sb_nprocs := nprocs, sb_maxcore := maxcore\<rparr>))))"

text \<open>\<open>OrcaInputDialog.__init__\<close>: \<open>setup_ui\<close>, then \<open>load_defaults\<close>.\<close>

definition init_dialog ::
  "(string \<rightharpoonup> string) \<Rightarrow> main_window \<Rightarrow> exn + dialog \<times> string list" where
  "init_dialog environ mw = then_do setup_ui (load_defaults environ mw)"

section \<open>Files and paths\<close>

text \<open>
  The file system as the plugin sees it. An existing path holds either a text that
  \<open>open(path, 'r', encoding='utf-8')\<close> and \<open>read()\<close> return, or something that makes them
  raise (a directory, a file without read permission, bytes that are not UTF-8), with the
  text of the exception. \<open>write_error\<close> gives, for a path that cannot be opened for
  writing, the text of the exception that \<open>open(path, 'w')\<close> raises.
\<close>

datatype node = File string | Unreadable string

record world =
  files :: "string \<rightharpoonup> node"
  write_error :: "string \<rightharpoonup> string"

definition os_path_exists :: "world \<Rightarrow> string \<Rightarrow> bool" where
  "os_path_exists w p = (files w p \<noteq> None)"

definition read_text :: "world \<Rightarrow> string \<Rightarrow> string + string" where
  "read_text w p =
     (case files w p of
        None \<Rightarrow> Inl (''[Errno 2] No such file or directory: '' @ [CHR 0x27] @ p @ [CHR 0x27])
      | Some (Unreadable msg) \<Rightarrow> Inl msg
      | Some (File txt) \<Rightarrow> Inr txt)"

definition write_text :: "world \<Rightarrow> string \<Rightarrow> string \<Rightarrow> string + world" where
  "write_text w p txt =
     (case write_error w p of
        Some msg \<Rightarrow> Inl msg
      | None \<Rightarrow> Inr (w\<lparr>files := (files w)(p \<mapsto> File txt)\<rparr>))"

text \<open>\<open>os.path.basename\<close> and the root part of \<open>os.path.splitext\<close>, for POSIX paths.\<close>

definition basename :: "string \<Rightarrow> string" where
  "basename p = rev (takeWhile (\<lambda>c. c \<noteq> CHR ''/'') (rev p))"

definition splitext_root :: "string \<Rightarrow> string" where
  "splitext_root p =
     (let b = basename p;
          dir = take (length p - length b) p;
          rest = dropWhile (\<lambda>c. c \<noteq> CHR ''.'') (rev b)
      in case rest of
           [] \<Rightarrow> p
         | _ # pre \<Rightarrow> if list_ex (\<lambda>c. c \<noteq> CHR ''.'') pre then dir @ rev pre else p)"

section \<open>Generating the file\<close>

datatype msgbox =
  Warning string string
| Information string string
| Critical string string

record outcome =
  shown :: "msgbox option"
  accepted :: bool
  world_after :: world

text \<open>Lines 168 to 171: the coordinate lines cut out of the XYZ block.\<close>

definition coords_of :: "string \<Rightarrow> string" where
  "coords_of xyz =
     (let xyz_lines = split_nl (py_strip xyz)
      in if length xyz_lines > 2 then join_nl (drop 2 xyz_lines) else [])"

definition default_name_of :: "main_window \<Rightarrow> string \<Rightarrow> string" where
  "default_name_of mw suffix =
     (case current_file_path mw of
        None \<Rightarrow> ''orca_input'' @ suffix @ ''.inp''
      | Some path \<Rightarrow>
          if path = [] then ''orca_input'' @ suffix @ ''.inp''
          else splitext_root (basename path) @ suffix @ ''.inp'')"

text \<open>
  \<open>OrcaInputDialog.generate_file\<close>. \<open>getSaveFileName\<close> is the save dialog: from the proposed name to the
  path the user chooses, empty when the user cancels.
\<close>

definition generate_file_py ::
  "(string \<Rightarrow> string) \<Rightarrow> world \<Rightarrow> main_window \<Rightarrow> dialog \<Rightarrow> outcome" where
  "generate_file_py getSaveFileName w mw d =
     (let template_path = le_template d
      in if template_path = [] \<or> \<not> os_path_exists w template_path
         then \<lparr>shown = Some (Warning ''Error'' ''Template file not found.''),
               accepted = False, world_after = w\<rparr>
         else
           (case current_mol mw of
              None \<Rightarrow>
                \<lparr>shown = Some (Warning ''Error'' ''No molecule loaded.''),
                 accepted = False, world_after = w\<rparr>
            | Some mol \<Rightarrow>
                (let suffix = py_strip (le_suffix d);
                     output_path = getSaveFileName (default_name_of mw suffix)
                 in if output_path = []
                    then \<lparr>shown = None, accepted = False, world_after = w\<rparr>
                    else
                      (let charge = sb_value (sb_charge d);
                           mult = sb_value (sb_mult d);
                           nprocs = sb_value (sb_nprocs d);
                           maxcore = sb_value (sb_maxcore d)
                       in case read_text w template_path of
                            Inl e \<Rightarrow>
                              \<lparr>shown = Some (Critical ''Error''
                                         (''Failed to generate file:'' @ [nl] @ e)),
                               accepted = False, world_after = w\<rparr>
                          | Inr content \<Rightarrow>
                              (let template_content = py_strip content;
                                   coords_data = coords_of (xyz_block mol)
                               in case write_text w output_path
                                         (written_text charge mult nprocs maxcore
                                            template_content coords_data) of
                                    Inl e \<Rightarrow>
                                      \<lparr>shown = Some (Critical ''Error''
                                                 (''Failed to generate file:'' @ [nl] @ e)),
                                       accepted = False, world_after = w\<rparr>
                                  | Inr w' \<Rightarrow>
                                      \<lparr>shown = Some (Information ''Success''
                                                 (''Input file generated:'' @ [nl]
                                                  @ output_path)),
                                       accepted = True, world_after = w'\<rparr>)))))"

section \<open>The XYZ block of a molecule\<close>

text \<open>
  Modelled from the spec: \<open>Chem.MolToXYZBlock\<close> belongs to RDKit and is not part of the
  repository. The spec describes its result as one header line with the atom count, one
  comment line, and one line per atom, in the molecule's atom order, with the element
  symbol and the three coordinates separated by whitespace.

  RDKit aligns the columns of an atom line with spaces: the symbol stands in a field that
  is padded on the right, each coordinate in a field that is padded on the left, and one
  space separates two fields. Its line for an oxygen atom at the origin is \<open>O\<close>, six
  spaces, \<open>0.000000\<close>, four spaces, \<open>0.000000\<close>, four spaces, \<open>0.000000\<close>. The model
  leaves the two printers open: \<open>fs\<close> prints the symbol field and \<open>fmt\<close> a coordinate
  field, padding included, so that the widths and the printing of a floating-point number
  are theirs. With fields of the widths 3 and 11, \<open>ljust 3\<close> and \<open>rjust 11\<close> give RDKit's
  line from the symbol and the digits; with printers that add no padding the line is the
  spec's \<open><element> <x> <y> <z>\<close>.

  A molecule without a conformer has no coordinates to print, and RDKit returns the empty
  text for it: the atoms with their positions are an option, \<open>None\<close> without a conformer.
\<close>

record 'c atom =
  symbol :: string
  pos_x :: 'c
  pos_y :: 'c
  pos_z :: 'c

definition spaces :: "nat \<Rightarrow> string" where
  "spaces n = replicate n (CHR '' '')"

definition ljust :: "nat \<Rightarrow> string \<Rightarrow> string" where
  "ljust n s = s @ spaces (n - length s)"

definition rjust :: "nat \<Rightarrow> string \<Rightarrow> string" where
  "rjust n s = spaces (n - length s) @ s"

definition atom_line :: "(string \<Rightarrow> string) \<Rightarrow> ('c \<Rightarrow> string) \<Rightarrow> 'c atom \<Rightarrow> string" where
  "atom_line fs fmt a =
     fs (symbol a) @ '' '' @ fmt (pos_x a) @ '' '' @ fmt (pos_y a) @ '' '' @ fmt (pos_z a)"

definition MolToXYZBlock ::
  "(string \<Rightarrow> string) \<Rightarrow> ('c \<Rightarrow> string) \<Rightarrow> string \<Rightarrow> 'c atom list option \<Rightarrow> string" where
  "MolToXYZBlock fs fmt comment conformer =
     (case conformer of
        None \<Rightarrow> []
      | Some atoms \<Rightarrow>
          str_int (int (length atoms)) @ [nl] @ comment @ [nl] @
          concat (map (\<lambda>a. atom_line fs fmt a @ [nl]) atoms))"

text \<open>
  A field of a whitespace-delimited line: not empty, no whitespace in it. The first field
  of a line is what stands before its first whitespace. A symbol field is the symbol
  followed by spaces only; a coordinate field is spaces followed by one such field.
\<close>

definition is_token :: "string \<Rightarrow> bool" where
  "is_token s = (s \<noteq> [] \<and> list_all (\<lambda>c. \<not> py_isspace c) s)"

definition first_field :: "string \<Rightarrow> string" where
  "first_field l = takeWhile (\<lambda>c. \<not> py_isspace c) l"

definition right_padded :: "string \<Rightarrow> string \<Rightarrow> bool" where
  "right_padded s t = (t = s @ spaces (length t - length s))"

definition left_padded :: "string \<Rightarrow> bool" where
  "left_padded t = is_token (dropWhile (\<lambda>c. c = CHR '' '') t)"

definition well_formed_atom :: "(string \<Rightarrow> string) \<Rightarrow> ('c \<Rightarrow> string) \<Rightarrow> 'c atom \<Rightarrow> bool" where
  "well_formed_atom fs fmt a =
     (is_token (symbol a) \<and> right_padded (symbol a) (fs (symbol a)) \<and>
      left_padded (fmt (pos_x a)) \<and> left_padded (fmt (pos_y a)) \<and>
      left_padded (fmt (pos_z a)))"

text \<open>The ranges that \<open>setup_ui\<close> gives to the four spin boxes.\<close>

definition in_bounds :: "dialog \<Rightarrow> bool" where
  "in_bounds d =
     (- 10 \<le> sb_value (sb_charge d) \<and> sb_value (sb_charge d) \<le> 10 \<and>
      1 \<le> sb_value (sb_mult d) \<and> sb_value (sb_mult d) \<le> 10 \<and>
      1 \<le> sb_value (sb_nprocs d) \<and> sb_value (sb_nprocs d) \<le> 128 \<and>
      100 \<le> sb_value (sb_maxcore d) \<and> sb_value (sb_maxcore d) \<le> 100000)"

section \<open>Lines of a text\<close>

lemma split_nl_not_Nil: "split_nl s \<noteq> []"
  by (induction s) (auto split: list.splits)

lemma split_nl_no_nl: "nl \<notin> set s \<Longrightarrow> split_nl s = [s]"
  by (induction s) auto

lemma split_nl_append: "split_nl (a @ nl # b) = split_nl a @ split_nl b"
proof (induction a)
  case Nil
  show ?case by simp
next
  case (Cons c cs)
  obtain l ls where "split_nl cs = l # ls"
    using split_nl_not_Nil [of cs] by (cases "split_nl cs") auto
  with Cons show ?case by simp
qed

lemma split_nl_join_nl:
  "ls \<noteq> [] \<Longrightarrow> \<forall>l \<in> set ls. nl \<notin> set l \<Longrightarrow> split_nl (join_nl ls) = ls"
proof (induction ls rule: join_nl.induct)
  case 1
  then show ?case by simp
next
  case (2 x)
  then show ?case by (simp add: split_nl_no_nl)
next
  case (3 x y ys)
  then show ?case by (simp add: split_nl_append split_nl_no_nl)
qed

lemma length_split_nl: "length (split_nl s) = Suc (count_list s nl)"
  by (induction s) (auto split: list.splits simp: split_nl_not_Nil)

lemma concat_lines: "ls \<noteq> [] \<Longrightarrow> concat (map (\<lambda>l. l @ [nl]) ls) = join_nl ls @ [nl]"
  by (induction ls rule: join_nl.induct) auto

lemma digit_char_cases:
  "n < 10 \<Longrightarrow> digit_char n \<in> set ''0123456789''"
proof -
  assume "n < 10"
  then have "n \<in> {0,1,2,3,4,5,6,7,8,9}" by auto
  then show ?thesis unfolding digit_char_def by (elim insertE emptyE) simp_all
qed

lemma str_nat_digits: "set (str_nat n) \<subseteq> set ''0123456789'' \<and> str_nat n \<noteq> []"
proof (induction n rule: str_nat.induct)
  case (1 n)
  show ?case
  proof (cases "n < 10")
    case True
    then show ?thesis using digit_char_cases [of n] by (subst str_nat.simps, subst (2) str_nat.simps) simp
  next
    case False
    then have "n mod 10 < 10" by simp
    with False 1 show ?thesis using digit_char_cases [of "n mod 10"]
      by (subst str_nat.simps, subst (2) str_nat.simps) simp
  qed
qed

section \<open>Stripping\<close>

lemma py_strip_unchanged:
  assumes "s \<noteq> []" "\<not> py_isspace (hd s)" "\<not> py_isspace (last s)"
  shows "py_strip s = s"
proof -
  from assms have "dropWhile py_isspace s = s"
    by (cases s) auto
  moreover from assms have "dropWhile py_isspace (rev s) = rev s"
    by (cases "rev s") (auto simp: last_rev [symmetric] hd_rev simp del: last_rev)
  ultimately show ?thesis by (simp add: py_strip_def)
qed

lemma dropWhile_all: "\<forall>x \<in> set xs. P x \<Longrightarrow> dropWhile P xs = []"
  by (induction xs) auto

lemma py_strip_snoc_space: "py_isspace c \<Longrightarrow> py_strip (s @ [c]) = py_strip s"
  by (auto simp: py_strip_def dropWhile_append dropWhile_all)

lemma py_strip_parts:
  "\<exists>l r. s = l @ py_strip s @ r \<and> list_all py_isspace l \<and> list_all py_isspace r"
proof -
  let ?d = "dropWhile py_isspace s"
  have "rev ?d = takeWhile py_isspace (rev ?d) @ dropWhile py_isspace (rev ?d)"
    by simp
  then have "?d = py_strip s @ rev (takeWhile py_isspace (rev ?d))"
    unfolding py_strip_def by (metis rev_append rev_rev_ident)
  then have "s = takeWhile py_isspace s @ py_strip s @ rev (takeWhile py_isspace (rev ?d))"
    by (metis takeWhile_dropWhile_id)
  moreover have "list_all py_isspace (takeWhile py_isspace s)"
    by (simp add: list_all_iff) (meson set_takeWhileD)
  moreover have "list_all py_isspace (rev (takeWhile py_isspace (rev ?d)))"
    by (simp add: list_all_iff) (meson set_takeWhileD)
  ultimately show ?thesis by blast
qed

lemma py_strip_ends:
  "py_strip s \<noteq> [] \<Longrightarrow> \<not> py_isspace (hd (py_strip s)) \<and> \<not> py_isspace (last (py_strip s))"
proof -
  assume ne: "py_strip s \<noteq> []"
  let ?d = "dropWhile py_isspace s"
  let ?e = "dropWhile py_isspace (rev ?d)"
  from ne have e: "?e \<noteq> []" by (simp add: py_strip_def)
  then have 1: "\<not> py_isspace (hd ?e)" by (rule hd_dropWhile)
  from e have d: "?d \<noteq> []" by (cases "?d") auto
  then have 2: "\<not> py_isspace (hd ?d)" by (rule hd_dropWhile)
  have "last (py_strip s) = hd ?e" using e by (simp add: py_strip_def last_rev)
  moreover have "hd (py_strip s) = hd ?d"
  proof -
    obtain t where t: "?d = py_strip s @ t"
      using py_strip_def
      by (metis append_take_drop_id rev_append rev_rev_ident takeWhile_dropWhile_id)
    with ne show ?thesis by (cases "py_strip s") auto
  qed
  ultimately show ?thesis using 1 2 by simp
qed

lemma count_nl_py_strip: "count_list (py_strip s) nl \<le> count_list s nl"
proof -
  have a: "count_list (dropWhile P xs) c \<le> count_list xs c" for P and xs :: string and c
    by (induction xs) auto
  have b: "count_list (rev xs) c = count_list xs c" for xs :: string and c
    by (induction xs) auto
  show ?thesis
    unfolding py_strip_def using a [of py_isspace "rev (dropWhile py_isspace s)" nl] a [of py_isspace s nl]
    by (simp add: b)
qed

section \<open>Coordinate lines\<close>

lemma digit_not_space: "c \<in> set ''0123456789'' \<Longrightarrow> \<not> py_isspace c \<and> c \<noteq> nl"
  by (auto simp: py_isspace_def)

lemma nl_is_space: "py_isspace nl"
  by (simp add: py_isspace_def)

lemma str_nat_plain:
  "str_nat n \<noteq> [] \<and> \<not> py_isspace (hd (str_nat n)) \<and> nl \<notin> set (str_nat n)"
proof -
  have s: "set (str_nat n) \<subseteq> set ''0123456789''" and ne: "str_nat n \<noteq> []"
    using str_nat_digits [of n] by blast+
  from ne have "hd (str_nat n) \<in> set (str_nat n)" by simp
  with s have "hd (str_nat n) \<in> set ''0123456789''" by blast
  then have "\<not> py_isspace (hd (str_nat n))" by (rule digit_not_space [THEN conjunct1])
  moreover have "nl \<notin> set (str_nat n)" using s digit_not_space by blast
  ultimately show ?thesis using ne by simp
qed

lemma nl_notin_str_int: "nl \<notin> set (str_int i)"
  using str_nat_plain by (simp add: str_int_def)

lemma str_int_of_nat: "str_int (int n) = str_nat n"
  by (simp add: str_int_def)

lemma join_nl_not_Nil: "ls \<noteq> [] \<Longrightarrow> last ls \<noteq> [] \<Longrightarrow> join_nl ls \<noteq> []"
  by (induction ls rule: join_nl.induct) auto

lemma last_join_nl: "ls \<noteq> [] \<Longrightarrow> last ls \<noteq> [] \<Longrightarrow> last (join_nl ls) = last (last ls)"
  by (induction ls rule: join_nl.induct) (auto simp: join_nl_not_Nil)

lemma coords_of_lines:
  assumes ne: "ls \<noteq> []"
    and c: "nl \<notin> set comment"
    and l: "\<forall>l \<in> set ls. nl \<notin> set l"
    and e: "last ls \<noteq> []" "\<not> py_isspace (last (last ls))"
  shows "coords_of (str_nat n @ [nl] @ comment @ [nl] @ concat (map (\<lambda>l. l @ [nl]) ls))
         = join_nl ls"
proof -
  let ?body = "str_nat n @ nl # comment @ nl # join_nl ls"
  have j: "join_nl ls \<noteq> []" using ne e(1) by (rule join_nl_not_Nil)
  have "py_strip (?body @ [nl]) = py_strip ?body"
    using nl_is_space by (rule py_strip_snoc_space)
  also have "py_strip ?body = ?body"
  proof (rule py_strip_unchanged)
    show "?body \<noteq> []" by simp
    show "\<not> py_isspace (hd ?body)" using str_nat_plain [of n] by simp
    have "last ?body = last (join_nl ls)" using j by simp
    then show "\<not> py_isspace (last ?body)" using last_join_nl [OF ne e(1)] e(2) by simp
  qed
  finally have s: "py_strip (?body @ [nl]) = ?body" .
  have "split_nl ?body = split_nl (str_nat n) @ split_nl comment @ split_nl (join_nl ls)"
    using split_nl_append [of "str_nat n" "comment @ nl # join_nl ls"]
          split_nl_append [of comment "join_nl ls"] by simp
  then have sp: "split_nl ?body = str_nat n # comment # ls"
    using str_nat_plain [of n] c split_nl_join_nl [OF ne l] by (simp add: split_nl_no_nl)
  have "str_nat n @ [nl] @ comment @ [nl] @ concat (map (\<lambda>l. l @ [nl]) ls) = ?body @ [nl]"
    using concat_lines [OF ne] by simp
  then show ?thesis
    using ne by (simp only: coords_of_def s sp Let_def) simp
qed

lemma coords_of_short: "length (split_nl (py_strip xyz)) \<le> 2 \<Longrightarrow> coords_of xyz = []"
  by (simp add: coords_of_def Let_def)

lemma coords_of_no_lines:
  assumes "nl \<notin> set comment"
  shows "coords_of (str_nat n @ [nl] @ comment @ [nl]) = []"
proof -
  let ?body = "str_nat n @ nl # comment"
  have "py_strip (?body @ [nl]) = py_strip ?body"
    using nl_is_space by (rule py_strip_snoc_space)
  moreover have "count_list (py_strip ?body) nl \<le> count_list ?body nl"
    by (rule count_nl_py_strip)
  moreover have "count_list ?body nl = 1"
    using str_nat_plain [of n] assms by (simp add: count_list_0_iff)
  ultimately have "length (split_nl (py_strip (?body @ [nl]))) \<le> 2"
    by (simp add: length_split_nl)
  then have "coords_of (?body @ [nl]) = []" by (rule coords_of_short)
  then show ?thesis by simp
qed

lemma space_is_space: "py_isspace (CHR '' '')"
  by (simp add: py_isspace_def)

lemma token_no_nl: "is_token s \<Longrightarrow> nl \<notin> set s"
  using nl_is_space by (auto simp: is_token_def list_all_iff)

lemma left_padded_plain:
  assumes "left_padded t"
  shows "t \<noteq> []" and "\<not> py_isspace (last t)" and "nl \<notin> set t"
proof -
  let ?p = "takeWhile (\<lambda>c. c = CHR '' '') t" and ?k = "dropWhile (\<lambda>c. c = CHR '' '') t"
  have t: "t = ?p @ ?k" by simp
  from assms have k: "is_token ?k" by (simp add: left_padded_def)
  then have ne: "?k \<noteq> []" by (simp add: is_token_def)
  then show "t \<noteq> []" by auto
  have "last t = last ?k" using ne by (subst t) (simp only: last_append if_False)
  moreover have "last ?k \<in> set ?k" using ne by simp
  ultimately show "\<not> py_isspace (last t)"
    using k by (auto simp: is_token_def list_all_iff)
  have "nl \<notin> set ?p" by (auto dest: set_takeWhileD)
  moreover have "nl \<notin> set ?k" using k by (rule token_no_nl)
  moreover have "set t = set ?p \<union> set ?k"
    by (metis set_append takeWhile_dropWhile_id)
  ultimately show "nl \<notin> set t" by blast
qed

lemma right_padded_plain:
  assumes "is_token s" "right_padded s t"
  shows "nl \<notin> set t" and "first_field (t @ CHR '' '' # rest) = s"
proof -
  let ?n = "length t - length s"
  from assms(2) have t: "t = s @ spaces ?n" by (simp add: right_padded_def)
  have "nl \<notin> set (s @ spaces ?n)"
    using token_no_nl [OF assms(1)] by (simp add: spaces_def)
  then show "nl \<notin> set t" using t by simp
  have s: "\<forall>c \<in> set s. \<not> py_isspace c"
    using assms(1) by (simp add: is_token_def list_all_iff)
  have "first_field (spaces ?n @ CHR '' '' # rest) = []"
    using space_is_space by (cases ?n) (simp_all add: first_field_def spaces_def)
  then have "first_field (s @ spaces ?n @ CHR '' '' # rest) = s"
    using s by (simp add: first_field_def takeWhile_append2)
  then show "first_field (t @ CHR '' '' # rest) = s"
    by (subst t) simp
qed

lemma atom_line_plain:
  assumes "well_formed_atom fs fmt a"
  shows "nl \<notin> set (atom_line fs fmt a)"
    and "atom_line fs fmt a \<noteq> []"
    and "\<not> py_isspace (last (atom_line fs fmt a))"
    and "first_field (atom_line fs fmt a) = symbol a"
proof -
  from assms have s: "is_token (symbol a)" "right_padded (symbol a) (fs (symbol a))"
    and x: "left_padded (fmt (pos_x a))" and y: "left_padded (fmt (pos_y a))"
    and z: "left_padded (fmt (pos_z a))"
    by (simp_all add: well_formed_atom_def)
  show "nl \<notin> set (atom_line fs fmt a)"
    using right_padded_plain(1) [OF s] left_padded_plain(3) [OF x]
          left_padded_plain(3) [OF y] left_padded_plain(3) [OF z]
    by (simp add: atom_line_def)
  show "atom_line fs fmt a \<noteq> []" by (simp add: atom_line_def)
  show "\<not> py_isspace (last (atom_line fs fmt a))"
    using left_padded_plain(1,2) [OF z] by (simp add: atom_line_def)
  show "first_field (atom_line fs fmt a) = symbol a"
    using right_padded_plain(2) [OF s] by (simp add: atom_line_def)
qed

lemma coords_of_MolToXYZBlock:
  assumes "atoms \<noteq> []" "nl \<notin> set comment" "\<forall>a \<in> set atoms. well_formed_atom fs fmt a"
  shows "coords_of (MolToXYZBlock fs fmt comment (Some atoms))
         = join_nl (map (atom_line fs fmt) atoms)"
proof -
  let ?ls = "map (atom_line fs fmt) atoms"
  have 1: "?ls \<noteq> []" using assms(1) by simp
  have 2: "\<forall>l \<in> set ?ls. nl \<notin> set l" using assms(3) by (auto dest: atom_line_plain(1))
  have l: "last ?ls = atom_line fs fmt (last atoms)" using assms(1) by (simp add: last_map)
  have "last atoms \<in> set atoms" using assms(1) by simp
  then have w: "well_formed_atom fs fmt (last atoms)" using assms(3) by blast
  have 3: "last ?ls \<noteq> []" "\<not> py_isspace (last (last ?ls))"
    using atom_line_plain(2,3) [OF w] l by simp_all
  have "concat (map (\<lambda>a. atom_line fs fmt a @ [nl]) atoms) = concat (map (\<lambda>l. l @ [nl]) ?ls)"
    by (simp add: comp_def)
  then show ?thesis
    using coords_of_lines [OF 1 assms(2) 2 3, of "length atoms"]
    by (simp add: MolToXYZBlock_def str_int_of_nat)
qed

lemma coords_of_MolToXYZBlock_Nil:
  "nl \<notin> set comment \<Longrightarrow> coords_of (MolToXYZBlock fs fmt comment (Some [])) = []"
  using coords_of_no_lines [of comment 0] str_int_of_nat [of 0]
  by (simp add: MolToXYZBlock_def)

lemma coords_of_MolToXYZBlock_None:
  "coords_of (MolToXYZBlock fs fmt comment None) = []"
  by (simp add: MolToXYZBlock_def coords_of_def py_strip_def)

lemma spaces_literal: "spaces 2 = ''  ''" "spaces 3 = ''   ''"
  by (simp_all add: spaces_def eval_nat_numeral)

lemma ljust_3_symbol: "ljust 3 [c] = [c] @ spaces 2" "ljust 3 [c, c'] = [c, c'] @ spaces 1"
  by (simp_all add: ljust_def)

lemma rjust_11_digits:
  "rjust 11 [c1, c2, c3, c4, c5, c6, c7, c8] = spaces 3 @ [c1, c2, c3, c4, c5, c6, c7, c8]"
  "rjust 11 [c0, c1, c2, c3, c4, c5, c6, c7, c8] = spaces 2 @ [c0, c1, c2, c3, c4, c5, c6, c7, c8]"
  by (simp_all add: rjust_def)

lemma spaces_Suc: "spaces 0 = []" "spaces (Suc n) = CHR '' '' # spaces n"
  by (simp_all add: spaces_def)

section \<open>A successful run\<close>

lemma generate_file_py_writes:
  assumes "le_template d \<noteq> []"
    and "files w (le_template d) = Some (File content)"
    and "current_mol mw = Some mol"
    and "getSaveFileName (default_name_of mw (py_strip (le_suffix d))) = out"
    and "out \<noteq> []"
    and "write_error w out = None"
  shows "generate_file_py getSaveFileName w mw d =
           \<lparr>shown = Some (Information ''Success'' (''Input file generated:'' @ [nl] @ out)),
            accepted = True,
            world_after = w\<lparr>files := (files w)(out \<mapsto> File
              (written_text (sb_value (sb_charge d)) (sb_value (sb_mult d))
                 (sb_value (sb_nprocs d)) (sb_value (sb_maxcore d))
                 (py_strip content) (coords_of (xyz_block mol))))\<rparr>\<rparr>"
  using assms
  by (simp add: generate_file_py_def os_path_exists_def read_text_def write_text_def Let_def)

lemma split_nl_written_text:
  "split_nl (written_text charge mult nprocs maxcore template_content coords_data) =
     [''# Generated by MoleditPy (ORCA xyz2inp GUI)'', pal_line nprocs, maxcore_line maxcore, []]
     @ split_nl template_content @ [[], xyz_line charge mult]
     @ split_nl coords_data @ [''*'', []]"
proof -
  let ?H = "''# Generated by MoleditPy (ORCA xyz2inp GUI)''"
  have h: "split_nl ?H = [?H]" by (rule split_nl_no_nl) simp
  have p: "split_nl (pal_line nprocs) = [pal_line nprocs]"
    by (rule split_nl_no_nl) (simp add: pal_line_def nl_notin_str_int)
  have m: "split_nl (maxcore_line maxcore) = [maxcore_line maxcore]"
    by (rule split_nl_no_nl) (simp add: maxcore_line_def nl_notin_str_int)
  have x: "split_nl (xyz_line charge mult) = [xyz_line charge mult]"
    by (rule split_nl_no_nl) (simp add: xyz_line_def nl_notin_str_int)
  have s: "split_nl ''*'' = [''*'']" by simp
  have "written_text charge mult nprocs maxcore template_content coords_data =
        ?H @ nl # pal_line nprocs @ nl # maxcore_line maxcore @ nl # [] @ nl #
        template_content @ nl # [] @ nl # xyz_line charge mult @ nl # coords_data @ nl #
        ''*'' @ nl # []"
    by (simp add: written_text_def PLUGIN_NAME_def)
  then show ?thesis
    by (simp only: split_nl_append h p m x s split_nl.simps(1)) simp
qed

lemma not_accepted_no_write:
  "\<not> accepted (generate_file_py getSaveFileName w mw d) \<Longrightarrow>
   world_after (generate_file_py getSaveFileName w mw d) = w"
  by (auto simp: generate_file_py_def Let_def write_text_def
           split: option.splits sum.splits if_splits)

lemma unreadable_template_no_output:
  assumes "files w (le_template d) = Some (Unreadable msg)"
    and "le_template d \<noteq> []"
    and "current_mol mw = Some mol"
    and "getSaveFileName (default_name_of mw (py_strip (le_suffix d))) \<noteq> []"
  shows "generate_file_py getSaveFileName w mw d =
           \<lparr>shown = Some (Critical ''Error'' (''Failed to generate file:'' @ [nl] @ msg)),
            accepted = False, world_after = w\<rparr>"
  using assms
  by (simp add: generate_file_py_def os_path_exists_def read_text_def Let_def)

lemma split_nl_MolToXYZBlock:
  assumes "nl \<notin> set comment" "\<forall>a \<in> set atoms. well_formed_atom fs fmt a"
  shows "split_nl (MolToXYZBlock fs fmt comment (Some atoms)) =
           str_int (int (length atoms)) # comment # map (atom_line fs fmt) atoms @ [[]]"
proof -
  have l: "split_nl (concat (map (\<lambda>a. atom_line fs fmt a @ [nl]) as))
           = map (atom_line fs fmt) as @ [[]]"
    if "\<forall>a \<in> set as. well_formed_atom fs fmt a" for as
    using that
  proof (induction as)
    case Nil
    show ?case by simp
  next
    case (Cons a as)
    then have "well_formed_atom fs fmt a" by simp
    then have "nl \<notin> set (atom_line fs fmt a)" by (rule atom_line_plain(1))
    then have "split_nl (atom_line fs fmt a) = [atom_line fs fmt a]" by (rule split_nl_no_nl)
    with Cons show ?case by (simp add: split_nl_append)
  qed
  have n: "split_nl (str_int (int (length atoms))) = [str_int (int (length atoms))]"
    by (rule split_nl_no_nl) (rule nl_notin_str_int)
  have c: "split_nl comment = [comment]" using assms(1) by (rule split_nl_no_nl)
  show ?thesis
    unfolding MolToXYZBlock_def
    by (simp add: split_nl_append n c l [OF assms(2)])
qed

lemma first_field_atom_lines:
  "\<forall>a \<in> set atoms. well_formed_atom fs fmt a \<Longrightarrow>
   map first_field (map (atom_line fs fmt) atoms) = map symbol atoms"
  by (induction atoms) (simp_all add: atom_line_plain(4))

lemma setup_ui_eq:
  "setup_ui =
     Inr \<lparr>le_template = [], le_suffix = [],
          sb_charge = \<lparr>sb_min = - 10, sb_max = 10, sb_value = 0\<rparr>,
          sb_mult = \<lparr>sb_min = 1, sb_max = 10, sb_value = 1\<rparr>,
          sb_nprocs = \<lparr>sb_min = 1, sb_max = 128, sb_value = 1\<rparr>,
          sb_maxcore = \<lparr>sb_min = 100, sb_max = 100000, sb_value = 1000\<rparr>\<rparr>"
  by (simp add: setup_ui_def new_spinbox_def then_do_def setRange_def setValue_def
        QSpinBox_def bound_def c_int_ok_def)

lemma py_int_error: "py_int s = Inl e \<Longrightarrow> e = ValueError"
  by (auto simp: py_int_def split: list.splits option.splits if_splits)

lemma env_override_unset: "environ key = None \<Longrightarrow> env_override environ key sb = Inr sb"
  by (simp add: env_override_def)

lemma env_override_malformed:
  "environ key = Some s \<Longrightarrow> py_int s = Inl ValueError \<Longrightarrow> env_override environ key sb = Inr sb"
  by (simp add: env_override_def then_do_def)

lemma env_override_fits:
  "environ key = Some s \<Longrightarrow> py_int s = Inr v \<Longrightarrow> c_int_ok v \<Longrightarrow>
   env_override environ key sb = Inr (sb\<lparr>sb_value := bound sb v\<rparr>)"
  by (simp add: env_override_def then_do_def setValue_def)

lemma env_override_overflow:
  "environ key = Some s \<Longrightarrow> py_int s = Inr v \<Longrightarrow> \<not> c_int_ok v \<Longrightarrow>
   env_override environ key sb = Inl OverflowError"
  by (simp add: env_override_def then_do_def setValue_def)

lemma c_int_ok_sint: "c_int_ok (sint (x :: 32 word))"
  using sint_ge [of x] sint_lt [of x] by (simp add: c_int_ok_def)

lemma num_radical_electrons_nonneg: "0 \<le> num_radical_electrons mol"
  by (simp add: num_radical_electrons_def)

lemma estimate_keeps:
  "sb_nprocs (fst (estimate mw d)) = sb_nprocs d"
  "sb_maxcore (fst (estimate mw d)) = sb_maxcore d"
  "le_template (fst (estimate mw d)) = le_template d"
  "le_suffix (fst (estimate mw d)) = le_suffix d"
  by (auto simp: estimate_def Let_def split: option.splits sum.splits)

lemma estimate_no_mol:
  "current_mol mw = None \<Longrightarrow> estimate mw d = (d, [])"
  by (simp add: estimate_def)

lemma estimate_charge:
  "current_mol mw = Some mol \<Longrightarrow>
   sb_value (sb_charge (fst (estimate mw d))) = bound (sb_charge d) (sint (formal_charge mol))"
  using c_int_ok_sint [of "formal_charge mol"]
  by (auto simp: estimate_def Let_def setValue_def split: sum.splits)

lemma estimate_mult:
  "current_mol mw = Some mol \<Longrightarrow>
   sb_value (sb_mult (fst (estimate mw d))) =
     (if c_int_ok (num_radical_electrons mol + 1)
      then bound (sb_mult d) (num_radical_electrons mol + 1)
      else sb_value (sb_mult d))"
  using c_int_ok_sint [of "formal_charge mol"]
  by (auto simp: estimate_def Let_def setValue_def split: sum.splits)

lemma load_defaults_Inr:
  assumes "env_override environ ''orca_xyz2inp_nprocs'' (sb_nprocs d) = Inr np"
    and "env_override environ ''orca_xyz2inp_maxcore'' (sb_maxcore d) = Inr mc"
  shows "load_defaults environ mw d = Inr (estimate mw (d\<lparr>sb_nprocs := np, sb_maxcore := mc\<rparr>))"
  using assms by (simp add: load_defaults_def then_do_def)

lemma load_defaults_Inr_iff:
  "load_defaults environ mw d = Inr r \<longleftrightarrow>
     (\<exists>np mc. env_override environ ''orca_xyz2inp_nprocs'' (sb_nprocs d) = Inr np \<and>
              env_override environ ''orca_xyz2inp_maxcore'' (sb_maxcore d) = Inr mc \<and>
              r = estimate mw (d\<lparr>sb_nprocs := np, sb_maxcore := mc\<rparr>))"
  by (auto simp: load_defaults_def then_do_def split: sum.splits)

lemma init_dialog_eq:
  "init_dialog environ mw =
     load_defaults environ mw
       \<lparr>le_template = [], le_suffix = [],
        sb_charge = \<lparr>sb_min = - 10, sb_max = 10, sb_value = 0\<rparr>,
        sb_mult = \<lparr>sb_min = 1, sb_max = 10, sb_value = 1\<rparr>,
        sb_nprocs = \<lparr>sb_min = 1, sb_max = 128, sb_value = 1\<rparr>,
        sb_maxcore = \<lparr>sb_min = 100, sb_max = 100000, sb_value = 1000\<rparr>\<rparr>"
  by (simp add: init_dialog_def setup_ui_eq then_do_def)

lemma setValue_in_range:
  assumes "setValue v sb = Inr sb'" and "sb_min sb \<le> sb_max sb"
  shows "sb_min sb' = sb_min sb \<and> sb_max sb' = sb_max sb \<and>
         sb_min sb \<le> sb_value sb' \<and> sb_value sb' \<le> sb_max sb"
  using assms by (auto simp: setValue_def bound_def split: if_splits)

lemma env_override_in_range:
  assumes "env_override environ key sb = Inr sb'"
    and "sb_min sb \<le> sb_value sb" and "sb_value sb \<le> sb_max sb"
  shows "sb_min sb' = sb_min sb \<and> sb_max sb' = sb_max sb \<and>
         sb_min sb \<le> sb_value sb' \<and> sb_value sb' \<le> sb_max sb"
proof (cases "environ key")
  case None
  with assms show ?thesis by (simp add: env_override_def)
next
  case (Some s)
  show ?thesis
  proof (cases "then_do (py_int s) (\<lambda>val. setValue val sb)")
    case (Inl e)
    with Some assms show ?thesis
      by (cases e) (simp_all add: env_override_def)
  next
    case (Inr sb'')
    with Some assms(1) have e: "sb'' = sb'" by (simp add: env_override_def)
    from Inr obtain v where "setValue v sb = Inr sb''"
      by (auto simp: then_do_def split: sum.splits)
    with e have "setValue v sb = Inr sb'" by simp
    moreover from assms(2,3) have "sb_min sb \<le> sb_max sb" by simp
    ultimately show ?thesis by (rule setValue_in_range)
  qed
qed

lemma estimate_in_range:
  assumes "sb_min (sb_charge d) \<le> sb_value (sb_charge d)"
    and "sb_value (sb_charge d) \<le> sb_max (sb_charge d)"
    and "sb_min (sb_mult d) \<le> sb_value (sb_mult d)"
    and "sb_value (sb_mult d) \<le> sb_max (sb_mult d)"
  shows "sb_min (sb_charge d) \<le> sb_value (sb_charge (fst (estimate mw d))) \<and>
         sb_value (sb_charge (fst (estimate mw d))) \<le> sb_max (sb_charge d) \<and>
         sb_min (sb_mult d) \<le> sb_value (sb_mult (fst (estimate mw d))) \<and>
         sb_value (sb_mult (fst (estimate mw d))) \<le> sb_max (sb_mult d)"
  using assms
  by (auto simp: estimate_def Let_def setValue_def bound_def split: option.splits sum.splits if_splits)

lemma init_dialog_in_bounds:
  assumes "init_dialog environ mw = Inr (d, out)"
  shows "in_bounds d"
proof -
  let ?d0 = "\<lparr>le_template = [], le_suffix = [],
              sb_charge = \<lparr>sb_min = - 10, sb_max = 10, sb_value = 0\<rparr>,
              sb_mult = \<lparr>sb_min = 1, sb_max = 10, sb_value = 1\<rparr>,
              sb_nprocs = \<lparr>sb_min = 1, sb_max = 128, sb_value = 1\<rparr>,
              sb_maxcore = \<lparr>sb_min = 100, sb_max = 100000, sb_value = 1000\<rparr>\<rparr>"
  from assms obtain np mc where
    np: "env_override environ ''orca_xyz2inp_nprocs'' \<lparr>sb_min = 1, sb_max = 128, sb_value = 1\<rparr>
           = Inr np"
    and mc: "env_override environ ''orca_xyz2inp_maxcore''
               \<lparr>sb_min = 100, sb_max = 100000, sb_value = 1000\<rparr> = Inr mc"
    and r: "(d, out) = estimate mw (?d0\<lparr>sb_nprocs := np, sb_maxcore := mc\<rparr>)"
    unfolding init_dialog_eq load_defaults_Inr_iff by auto
  have d: "d = fst (estimate mw (?d0\<lparr>sb_nprocs := np, sb_maxcore := mc\<rparr>))"
    using r by (metis fst_conv)
  have 1: "1 \<le> sb_value np \<and> sb_value np \<le> 128"
    using env_override_in_range [OF np] by simp
  have 2: "100 \<le> sb_value mc \<and> sb_value mc \<le> 100000"
    using env_override_in_range [OF mc] by simp
  have 3: "- 10 \<le> sb_value (sb_charge d) \<and> sb_value (sb_charge d) \<le> 10 \<and>
           1 \<le> sb_value (sb_mult d) \<and> sb_value (sb_mult d) \<le> 10"
    unfolding d
    using estimate_in_range [of "?d0\<lparr>sb_nprocs := np, sb_maxcore := mc\<rparr>" mw] by simp
  show ?thesis
    unfolding in_bounds_def using 1 2 3 by (simp add: d estimate_keeps)
qed

section \<open>The claims\<close>

text \<open>
  C1. The claim: for the request of the spec (atoms O at the origin and H at 0.96 on the x
  axis, charge 0, multiplicity 1, 4 processes, 2000 MB, template text
  \<open>! B3LYP def2-SVP\<close>) the file is exactly the text the spec prints, whose atom lines hold
  one space between two fields. The code copies the atom lines of the XYZ block as they
  are, and RDKit pads its columns: the block of this molecule is the text of the first
  equation below, and the file holds its two padded atom lines, so it is not the spec's
  text.
\<close>

theorem example_request_padded_lines:
  "MolToXYZBlock (ljust 3) (rjust 11) []
     (Some [\<lparr>symbol = ''O'', pos_x = ''0.000000'', pos_y = ''0.000000'', pos_z = ''0.000000''\<rparr>,
            \<lparr>symbol = ''H'', pos_x = ''0.960000'', pos_y = ''0.000000'', pos_z = ''0.000000''\<rparr>])
   = ''2'' @ [nl] @
     '''' @ [nl] @
     ''O      0.000000    0.000000    0.000000'' @ [nl] @
     ''H      0.960000    0.000000    0.000000'' @ [nl]
   \<and>
   files (world_after (generate_file_py (append ''/work/'')
      \<lparr>files = [''b3lyp.tmplt'' \<mapsto> File ''! B3LYP def2-SVP''], write_error = Map.empty\<rparr>
      \<lparr>current_mol = Some \<lparr>formal_charge = 0, radical_electrons = [0, 0],
         xyz_block = MolToXYZBlock (ljust 3) (rjust 11) []
           (Some [\<lparr>symbol = ''O'', pos_x = ''0.000000'', pos_y = ''0.000000'',
                   pos_z = ''0.000000''\<rparr>,
                  \<lparr>symbol = ''H'', pos_x = ''0.960000'', pos_y = ''0.000000'',
                   pos_z = ''0.000000''\<rparr>])\<rparr>,
       current_file_path = None\<rparr>
      \<lparr>le_template = ''b3lyp.tmplt'', le_suffix = [],
       sb_charge = \<lparr>sb_min = - 10, sb_max = 10, sb_value = 0\<rparr>,
       sb_mult = \<lparr>sb_min = 1, sb_max = 10, sb_value = 1\<rparr>,
       sb_nprocs = \<lparr>sb_min = 1, sb_max = 128, sb_value = 4\<rparr>,
       sb_maxcore = \<lparr>sb_min = 100, sb_max = 100000, sb_value = 2000\<rparr>\<rparr>))
     ''/work/orca_input.inp''
   = Some (File
       (''# Generated by MoleditPy (ORCA xyz2inp GUI)'' @ [nl] @
        ''%pal nprocs 4 end'' @ [nl] @
        ''%MaxCore 2000'' @ [nl] @
        '''' @ [nl] @
        ''! B3LYP def2-SVP'' @ [nl] @
        '''' @ [nl] @
        ''* xyz 0 1'' @ [nl] @
        ''O      0.000000    0.000000    0.000000'' @ [nl] @
        ''H      0.960000    0.000000    0.000000'' @ [nl] @
        ''*'' @ [nl]))
   \<and>
   ''# Generated by MoleditPy (ORCA xyz2inp GUI)'' @ [nl] @
   ''%pal nprocs 4 end'' @ [nl] @
   ''%MaxCore 2000'' @ [nl] @
   '''' @ [nl] @
   ''! B3LYP def2-SVP'' @ [nl] @
   '''' @ [nl] @
   ''* xyz 0 1'' @ [nl] @
   ''O      0.000000    0.000000    0.000000'' @ [nl] @
   ''H      0.960000    0.000000    0.000000'' @ [nl] @
   ''*'' @ [nl]
   \<noteq>
   ''# Generated by MoleditPy (ORCA xyz2inp GUI)'' @ [nl] @
   ''%pal nprocs 4 end'' @ [nl] @
   ''%MaxCore 2000'' @ [nl] @
   '''' @ [nl] @
   ''! B3LYP def2-SVP'' @ [nl] @
   '''' @ [nl] @
   ''* xyz 0 1'' @ [nl] @
   ''O 0.000000 0.000000 0.000000'' @ [nl] @
   ''H 0.960000 0.000000 0.000000'' @ [nl] @
   ''*'' @ [nl]"
  by (simp add: generate_file_py_def os_path_exists_def read_text_def write_text_def Let_def
        default_name_of_def py_strip_def py_isspace_def coords_of_def MolToXYZBlock_def
        atom_line_def ljust_3_symbol rjust_11_digits spaces_literal
        written_text_def pal_line_def maxcore_line_def xyz_line_def PLUGIN_NAME_def
        str_int_def str_nat.simps digit_char_def)

text \<open>
  C1, as the code has it: for the request of the spec the file is the text the spec
  prints, except for the spaces inside the two atom lines. Each atom line holds the fields
  of the spec's line in the same order (\<open>O\<close>, \<open>0.000000\<close>, \<open>0.000000\<close>, \<open>0.000000\<close> and
  \<open>H\<close>, \<open>0.960000\<close>, \<open>0.000000\<close>, \<open>0.000000\<close>), with the spaces the serializer puts
  around them: \<open>a\<close> and \<open>b\<close> after the symbols, \<open>i\<close> and \<open>j\<close> before the digits, and one
  between two fields. The digits of the two coordinate values are the serializer's (six
  decimals), and the comment line of the XYZ block is any single line. Without padding
  (\<open>a = b = i = j = 0\<close>) it is the spec's text; RDKit has \<open>a = b = 2\<close> and \<open>i = j = 3\<close>.
\<close>

theorem example_request_document:
  assumes "fs ''O'' = ''O'' @ spaces a" and "fs ''H'' = ''H'' @ spaces b"
    and "fmt c0 = spaces i @ ''0.000000''" and "fmt c96 = spaces j @ ''0.960000''"
    and "le_template d \<noteq> []"
    and "files w (le_template d) = Some (File ''! B3LYP def2-SVP'')"
    and "current_mol mw = Some mol"
    and "xyz_block mol = MolToXYZBlock fs fmt comment
           (Some [\<lparr>symbol = ''O'', pos_x = c0, pos_y = c0, pos_z = c0\<rparr>,
                  \<lparr>symbol = ''H'', pos_x = c96, pos_y = c0, pos_z = c0\<rparr>])"
    and "nl \<notin> set comment"
    and "sb_value (sb_charge d) = 0" and "sb_value (sb_mult d) = 1"
    and "sb_value (sb_nprocs d) = 4" and "sb_value (sb_maxcore d) = 2000"
    and "getSaveFileName (default_name_of mw (py_strip (le_suffix d))) = out"
    and "out \<noteq> []" and "write_error w out = None"
  shows "generate_file_py getSaveFileName w mw d =
           \<lparr>shown = Some (Information ''Success'' (''Input file generated:'' @ [nl] @ out)),
            accepted = True,
            world_after = w\<lparr>files := (files w)(out \<mapsto> File
              (''# Generated by MoleditPy (ORCA xyz2inp GUI)'' @ [nl] @
               ''%pal nprocs 4 end'' @ [nl] @
               ''%MaxCore 2000'' @ [nl] @
               '''' @ [nl] @
               ''! B3LYP def2-SVP'' @ [nl] @
               '''' @ [nl] @
               ''* xyz 0 1'' @ [nl] @
               (''O'' @ spaces a @ '' '' @ spaces i @ ''0.000000'' @ '' '' @
                  spaces i @ ''0.000000'' @ '' '' @ spaces i @ ''0.000000'') @ [nl] @
               (''H'' @ spaces b @ '' '' @ spaces j @ ''0.960000'' @ '' '' @
                  spaces i @ ''0.000000'' @ '' '' @ spaces i @ ''0.000000'') @ [nl] @
               ''*'' @ [nl]))\<rparr>\<rparr>"
proof -
  let ?atoms = "[\<lparr>symbol = ''O'', pos_x = c0, pos_y = c0, pos_z = c0\<rparr>,
                 \<lparr>symbol = ''H'', pos_x = c96, pos_y = c0, pos_z = c0\<rparr>]"
  have sp: "dropWhile (\<lambda>c. c = CHR '' '') (spaces n @ t) = dropWhile (\<lambda>c. c = CHR '' '') t"
    for n t
    by (induction n) (simp_all add: spaces_def)
  have p: "left_padded (fmt c0)" "left_padded (fmt c96)"
    unfolding assms(3,4) left_padded_def sp
    by (simp_all add: is_token_def py_isspace_def)
  have q: "right_padded ''O'' (fs ''O'')" "right_padded ''H'' (fs ''H'')"
    unfolding assms(1,2) right_padded_def by (simp_all add: spaces_def)
  have wf: "\<forall>a \<in> set ?atoms. well_formed_atom fs fmt a"
    using p q by (simp add: well_formed_atom_def is_token_def py_isspace_def)
  have c: "coords_of (xyz_block mol) = join_nl (map (atom_line fs fmt) ?atoms)"
    using coords_of_MolToXYZBlock [OF _ assms(9) wf] assms(8) by simp
  have t: "py_strip ''! B3LYP def2-SVP'' = ''! B3LYP def2-SVP''"
    by (simp add: py_strip_def py_isspace_def)
  have n: "str_int 0 = ''0''" "str_int 1 = ''1''" "str_int 4 = ''4''" "str_int 2000 = ''2000''"
    by (simp_all add: str_int_def str_nat.simps digit_char_def)
  show ?thesis
    unfolding generate_file_py_writes
        [where getSaveFileName = getSaveFileName, OF assms(5,6,7,14,15,16)] c t assms(10-13)
    by (simp add: written_text_def pal_line_def maxcore_line_def xyz_line_def PLUGIN_NAME_def
                  atom_line_def n assms(1-4))
qed

theorem example_request_document_witness:
  "generate_file_py (append ''/work/'')
     \<lparr>files = [''b3lyp.tmplt'' \<mapsto> File ''! B3LYP def2-SVP''], write_error = Map.empty\<rparr>
     \<lparr>current_mol = Some \<lparr>formal_charge = 0, radical_electrons = [0, 0],
        xyz_block = MolToXYZBlock (ljust 3) (rjust 11) ''water''
          (Some [\<lparr>symbol = ''O'', pos_x = ''0.000000'', pos_y = ''0.000000'',
                  pos_z = ''0.000000''\<rparr>,
                 \<lparr>symbol = ''H'', pos_x = ''0.960000'', pos_y = ''0.000000'',
                  pos_z = ''0.000000''\<rparr>])\<rparr>,
      current_file_path = None\<rparr>
     \<lparr>le_template = ''b3lyp.tmplt'', le_suffix = [],
      sb_charge = \<lparr>sb_min = - 10, sb_max = 10, sb_value = 0\<rparr>,
      sb_mult = \<lparr>sb_min = 1, sb_max = 10, sb_value = 1\<rparr>,
      sb_nprocs = \<lparr>sb_min = 1, sb_max = 128, sb_value = 4\<rparr>,
      sb_maxcore = \<lparr>sb_min = 100, sb_max = 100000, sb_value = 2000\<rparr>\<rparr>
   = \<lparr>shown = Some (Information ''Success''
                   (''Input file generated:'' @ [nl] @ ''/work/orca_input.inp'')),
      accepted = True,
      world_after =
        \<lparr>files = [''b3lyp.tmplt'' \<mapsto> File ''! B3LYP def2-SVP'',
                  ''/work/orca_input.inp'' \<mapsto> File
              (''# Generated by MoleditPy (ORCA xyz2inp GUI)'' @ [nl] @
               ''%pal nprocs 4 end'' @ [nl] @
               ''%MaxCore 2000'' @ [nl] @
               '''' @ [nl] @
               ''! B3LYP def2-SVP'' @ [nl] @
               '''' @ [nl] @
               ''* xyz 0 1'' @ [nl] @
               ''O      0.000000    0.000000    0.000000'' @ [nl] @
               ''H      0.960000    0.000000    0.000000'' @ [nl] @
               ''*'' @ [nl])],
         write_error = Map.empty\<rparr>\<rparr>"
proof -
  have h: "ljust 3 ''O'' = ''O'' @ spaces 2" "ljust 3 ''H'' = ''H'' @ spaces 2"
          "rjust 11 ''0.000000'' = spaces 3 @ ''0.000000''"
          "rjust 11 ''0.960000'' = spaces 3 @ ''0.960000''"
    by (simp_all add: ljust_3_symbol rjust_11_digits)
  show ?thesis
    using example_request_document
      [where fs = "ljust 3" and fmt = "rjust 11" and getSaveFileName = "append ''/work/''",
       OF h, of
        "\<lparr>le_template = ''b3lyp.tmplt'', le_suffix = [],
          sb_charge = \<lparr>sb_min = - 10, sb_max = 10, sb_value = 0\<rparr>,
          sb_mult = \<lparr>sb_min = 1, sb_max = 10, sb_value = 1\<rparr>,
          sb_nprocs = \<lparr>sb_min = 1, sb_max = 128, sb_value = 4\<rparr>,
          sb_maxcore = \<lparr>sb_min = 100, sb_max = 100000, sb_value = 2000\<rparr>\<rparr>"
        "\<lparr>files = [''b3lyp.tmplt'' \<mapsto> File ''! B3LYP def2-SVP''], write_error = Map.empty\<rparr>"
        "\<lparr>current_mol = Some \<lparr>formal_charge = 0, radical_electrons = [0, 0],
            xyz_block = MolToXYZBlock (ljust 3) (rjust 11) ''water''
              (Some [\<lparr>symbol = ''O'', pos_x = ''0.000000'', pos_y = ''0.000000'',
                      pos_z = ''0.000000''\<rparr>,
                     \<lparr>symbol = ''H'', pos_x = ''0.960000'', pos_y = ''0.000000'',
                      pos_z = ''0.000000''\<rparr>])\<rparr>,
          current_file_path = None\<rparr>"
        _ "''water''" "''/work/orca_input.inp''"]
    by (simp add: default_name_of_def py_strip_def spaces_literal)
qed

text \<open>
  C2. The claim: the output holds exactly one line \<open>%pal nprocs <nprocs> end\<close> and exactly
  one line \<open>%MaxCore <maxcoreMB>\<close>. The template is copied as it is, so a template that
  holds such a line itself gives a second one: with 4 processes and a template of the two
  lines \<open>! HF\<close> and \<open>%pal nprocs 4 end\<close>, the line occurs twice in the file.
\<close>

theorem pal_line_twice:
  "files (world_after (generate_file_py (append ''/work/'')
      \<lparr>files = [''par.tmplt'' \<mapsto> File (''! HF'' @ [nl] @ ''%pal nprocs 4 end'')],
       write_error = Map.empty\<rparr>
      \<lparr>current_mol = Some \<lparr>formal_charge = 0, radical_electrons = [0],
         xyz_block = ''1'' @ [nl, nl] @ ''He 0.000000 0.000000 0.000000'' @ [nl]\<rparr>,
       current_file_path = None\<rparr>
      \<lparr>le_template = ''par.tmplt'', le_suffix = [],
       sb_charge = \<lparr>sb_min = - 10, sb_max = 10, sb_value = 0\<rparr>,
       sb_mult = \<lparr>sb_min = 1, sb_max = 10, sb_value = 1\<rparr>,
       sb_nprocs = \<lparr>sb_min = 1, sb_max = 128, sb_value = 4\<rparr>,
       sb_maxcore = \<lparr>sb_min = 100, sb_max = 100000, sb_value = 1000\<rparr>\<rparr>))
     ''/work/orca_input.inp''
   = Some (File
       (''# Generated by MoleditPy (ORCA xyz2inp GUI)'' @ [nl] @
        ''%pal nprocs 4 end'' @ [nl] @
        ''%MaxCore 1000'' @ [nl] @
        '''' @ [nl] @
        ''! HF'' @ [nl] @
        ''%pal nprocs 4 end'' @ [nl] @
        '''' @ [nl] @
        ''* xyz 0 1'' @ [nl] @
        ''He 0.000000 0.000000 0.000000'' @ [nl] @
        ''*'' @ [nl]))
   \<and> count_list
       (split_nl
         (''# Generated by MoleditPy (ORCA xyz2inp GUI)'' @ [nl] @
          ''%pal nprocs 4 end'' @ [nl] @
          ''%MaxCore 1000'' @ [nl] @
          '''' @ [nl] @
          ''! HF'' @ [nl] @
          ''%pal nprocs 4 end'' @ [nl] @
          '''' @ [nl] @
          ''* xyz 0 1'' @ [nl] @
          ''He 0.000000 0.000000 0.000000'' @ [nl] @
          ''*'' @ [nl]))
       ''%pal nprocs 4 end'' = 2"
  by (simp add: generate_file_py_def os_path_exists_def read_text_def write_text_def Let_def
        default_name_of_def py_strip_def py_isspace_def coords_of_def
        written_text_def pal_line_def maxcore_line_def xyz_line_def PLUGIN_NAME_def
        str_int_def str_nat.simps digit_char_def)

text \<open>
  C2, as the code has it: the second line of the file is the \<open>%pal\<close> line and the third
  the \<open>%MaxCore\<close> line, both before the template block, which starts at the fifth line.
  Each of the two is the only such line of the file when neither the stripped template nor
  the coordinate lines hold a line equal to it.
\<close>

theorem resource_lines_before_template:
  assumes "le_template d \<noteq> []"
    and "files w (le_template d) = Some (File content)"
    and "current_mol mw = Some mol"
    and "getSaveFileName (default_name_of mw (py_strip (le_suffix d))) = out"
    and "out \<noteq> []"
    and "write_error w out = None"
  shows "\<exists>doc.
           files (world_after (generate_file_py getSaveFileName w mw d)) out = Some (File doc) \<and>
           split_nl doc =
             [''# Generated by MoleditPy (ORCA xyz2inp GUI)'',
              pal_line (sb_value (sb_nprocs d)),
              maxcore_line (sb_value (sb_maxcore d)),
              []]
             @ split_nl (py_strip content)
             @ [[], xyz_line (sb_value (sb_charge d)) (sb_value (sb_mult d))]
             @ split_nl (coords_of (xyz_block mol))
             @ [''*'', []] \<and>
           (pal_line (sb_value (sb_nprocs d)) \<notin> set (split_nl (py_strip content)) \<and>
            pal_line (sb_value (sb_nprocs d)) \<notin> set (split_nl (coords_of (xyz_block mol)))
            \<longrightarrow> count_list (split_nl doc) (pal_line (sb_value (sb_nprocs d))) = 1) \<and>
           (maxcore_line (sb_value (sb_maxcore d)) \<notin> set (split_nl (py_strip content)) \<and>
            maxcore_line (sb_value (sb_maxcore d)) \<notin> set (split_nl (coords_of (xyz_block mol)))
            \<longrightarrow> count_list (split_nl doc) (maxcore_line (sb_value (sb_maxcore d))) = 1)"
proof -
  let ?doc = "written_text (sb_value (sb_charge d)) (sb_value (sb_mult d))
                (sb_value (sb_nprocs d)) (sb_value (sb_maxcore d))
                (py_strip content) (coords_of (xyz_block mol))"
  let ?P = "pal_line (sb_value (sb_nprocs d))"
  let ?M = "maxcore_line (sb_value (sb_maxcore d))"
  let ?X = "xyz_line (sb_value (sb_charge d)) (sb_value (sb_mult d))"
  have f: "files (world_after (generate_file_py getSaveFileName w mw d)) out = Some (File ?doc)"
    unfolding generate_file_py_writes [where getSaveFileName = getSaveFileName, OF assms]
    by simp
  have s: "split_nl ?doc =
             [''# Generated by MoleditPy (ORCA xyz2inp GUI)'', ?P, ?M, []]
             @ split_nl (py_strip content) @ [[], ?X]
             @ split_nl (coords_of (xyz_block mol)) @ [''*'', []]"
    by (rule split_nl_written_text)
  have p: "?P \<noteq> ''# Generated by MoleditPy (ORCA xyz2inp GUI)''" "?P \<noteq> ?M" "?P \<noteq> []"
          "?P \<noteq> ?X" "?P \<noteq> ''*''"
    by (simp_all add: pal_line_def maxcore_line_def xyz_line_def)
  have m: "?M \<noteq> ''# Generated by MoleditPy (ORCA xyz2inp GUI)''" "?M \<noteq> ?P" "?M \<noteq> []"
          "?M \<noteq> ?X" "?M \<noteq> ''*''"
    by (simp_all add: pal_line_def maxcore_line_def xyz_line_def)
  have cp: "?P \<notin> set (split_nl (py_strip content)) \<and>
            ?P \<notin> set (split_nl (coords_of (xyz_block mol)))
            \<longrightarrow> count_list (split_nl ?doc) ?P = 1"
    unfolding s using p by (simp add: count_list_0_iff)
  have cm: "?M \<notin> set (split_nl (py_strip content)) \<and>
            ?M \<notin> set (split_nl (coords_of (xyz_block mol)))
            \<longrightarrow> count_list (split_nl ?doc) ?M = 1"
    unfolding s using m by (simp add: count_list_0_iff)
  from f s cp cm show ?thesis by blast
qed

theorem resource_lines_before_template_witness:
  "files (world_after (generate_file_py (append ''/work/'')
      \<lparr>files = [''dft.tmplt'' \<mapsto> File (''! PBE0 def2-TZVP'' @ [nl])],
       write_error = Map.empty\<rparr>
      \<lparr>current_mol = Some \<lparr>formal_charge = 0, radical_electrons = [0],
         xyz_block = ''1'' @ [nl, nl] @ ''Kr 0.000000 0.000000 0.000000'' @ [nl]\<rparr>,
       current_file_path = None\<rparr>
      \<lparr>le_template = ''dft.tmplt'', le_suffix = [],
       sb_charge = \<lparr>sb_min = - 10, sb_max = 10, sb_value = 0\<rparr>,
       sb_mult = \<lparr>sb_min = 1, sb_max = 10, sb_value = 1\<rparr>,
       sb_nprocs = \<lparr>sb_min = 1, sb_max = 128, sb_value = 16\<rparr>,
       sb_maxcore = \<lparr>sb_min = 100, sb_max = 100000, sb_value = 3000\<rparr>\<rparr>))
     ''/work/orca_input.inp''
   = Some (File
       (''# Generated by MoleditPy (ORCA xyz2inp GUI)'' @ [nl] @
        ''%pal nprocs 16 end'' @ [nl] @
        ''%MaxCore 3000'' @ [nl] @
        '''' @ [nl] @
        ''! PBE0 def2-TZVP'' @ [nl] @
        '''' @ [nl] @
        ''* xyz 0 1'' @ [nl] @
        ''Kr 0.000000 0.000000 0.000000'' @ [nl] @
        ''*'' @ [nl]))
   \<and> count_list
       (split_nl
         (''# Generated by MoleditPy (ORCA xyz2inp GUI)'' @ [nl] @
          ''%pal nprocs 16 end'' @ [nl] @
          ''%MaxCore 3000'' @ [nl] @
          '''' @ [nl] @
          ''! PBE0 def2-TZVP'' @ [nl] @
          '''' @ [nl] @
          ''* xyz 0 1'' @ [nl] @
          ''Kr 0.000000 0.000000 0.000000'' @ [nl] @
          ''*'' @ [nl]))
       ''%pal nprocs 16 end'' = 1
   \<and> count_list
       (split_nl
         (''# Generated by MoleditPy (ORCA xyz2inp GUI)'' @ [nl] @
          ''%pal nprocs 16 end'' @ [nl] @
          ''%MaxCore 3000'' @ [nl] @
          '''' @ [nl] @
          ''! PBE0 def2-TZVP'' @ [nl] @
          '''' @ [nl] @
          ''* xyz 0 1'' @ [nl] @
          ''Kr 0.000000 0.000000 0.000000'' @ [nl] @
          ''*'' @ [nl]))
       ''%MaxCore 3000'' = 1"
  using resource_lines_before_template
    [of "\<lparr>le_template = ''dft.tmplt'', le_suffix = [],
          sb_charge = \<lparr>sb_min = - 10, sb_max = 10, sb_value = 0\<rparr>,
          sb_mult = \<lparr>sb_min = 1, sb_max = 10, sb_value = 1\<rparr>,
          sb_nprocs = \<lparr>sb_min = 1, sb_max = 128, sb_value = 16\<rparr>,
          sb_maxcore = \<lparr>sb_min = 100, sb_max = 100000, sb_value = 3000\<rparr>\<rparr>"
        "\<lparr>files = [''dft.tmplt'' \<mapsto> File (''! PBE0 def2-TZVP'' @ [nl])],
          write_error = Map.empty\<rparr>"
        "''! PBE0 def2-TZVP'' @ [nl]"
        "\<lparr>current_mol = Some \<lparr>formal_charge = 0, radical_electrons = [0],
            xyz_block = ''1'' @ [nl, nl] @ ''Kr 0.000000 0.000000 0.000000'' @ [nl]\<rparr>,
          current_file_path = None\<rparr>"
        _ "append ''/work/''" "''/work/orca_input.inp''"]
  by (simp add: generate_file_py_def os_path_exists_def read_text_def write_text_def Let_def
        default_name_of_def py_strip_def py_isspace_def coords_of_def
        written_text_def pal_line_def maxcore_line_def xyz_line_def PLUGIN_NAME_def
        str_int_def str_nat.simps digit_char_def)

text \<open>
  C3. The claim: a template file that is empty after stripping makes the generation fail
  with \<open>TemplateEmptyError\<close>. The code has no such check. A template holding one space
  and one newline is accepted: the file is written, with an empty template block.
\<close>

theorem empty_template_accepted:
  "generate_file_py (append ''/work/'')
     \<lparr>files = [''blank.tmplt'' \<mapsto> File [CHR '' '', nl]], write_error = Map.empty\<rparr>
     \<lparr>current_mol = Some \<lparr>formal_charge = 0, radical_electrons = [0],
        xyz_block = ''1'' @ [nl, nl] @ ''He 0.000000 0.000000 0.000000'' @ [nl]\<rparr>,
      current_file_path = None\<rparr>
     \<lparr>le_template = ''blank.tmplt'', le_suffix = [],
      sb_charge = \<lparr>sb_min = - 10, sb_max = 10, sb_value = 0\<rparr>,
      sb_mult = \<lparr>sb_min = 1, sb_max = 10, sb_value = 1\<rparr>,
      sb_nprocs = \<lparr>sb_min = 1, sb_max = 128, sb_value = 1\<rparr>,
      sb_maxcore = \<lparr>sb_min = 100, sb_max = 100000, sb_value = 1000\<rparr>\<rparr>
   = \<lparr>shown = Some (Information ''Success''
                   (''Input file generated:'' @ [nl] @ ''/work/orca_input.inp'')),
      accepted = True,
      world_after =
        \<lparr>files = [''blank.tmplt'' \<mapsto> File [CHR '' '', nl],
                  ''/work/orca_input.inp'' \<mapsto> File
              (''# Generated by MoleditPy (ORCA xyz2inp GUI)'' @ [nl] @
               ''%pal nprocs 1 end'' @ [nl] @
               ''%MaxCore 1000'' @ [nl] @
               '''' @ [nl] @
               '''' @ [nl] @
               '''' @ [nl] @
               ''* xyz 0 1'' @ [nl] @
               ''He 0.000000 0.000000 0.000000'' @ [nl] @
               ''*'' @ [nl])],
         write_error = Map.empty\<rparr>\<rparr>"
  by (simp add: generate_file_py_def os_path_exists_def read_text_def write_text_def Let_def
        default_name_of_def py_strip_def py_isspace_def coords_of_def
        written_text_def pal_line_def maxcore_line_def xyz_line_def PLUGIN_NAME_def
        str_int_def str_nat.simps digit_char_def)

text \<open>
  C3, as the code has it: a template that is empty after stripping is not refused. The run
  succeeds and the file holds the header, an empty line where the template would stand,
  and the coordinate block.
\<close>

theorem empty_template_written:
  assumes "py_strip content = []"
    and "le_template d \<noteq> []"
    and "files w (le_template d) = Some (File content)"
    and "current_mol mw = Some mol"
    and "getSaveFileName (default_name_of mw (py_strip (le_suffix d))) = out"
    and "out \<noteq> []"
    and "write_error w out = None"
  shows "generate_file_py getSaveFileName w mw d =
           \<lparr>shown = Some (Information ''Success'' (''Input file generated:'' @ [nl] @ out)),
            accepted = True,
            world_after = w\<lparr>files := (files w)(out \<mapsto> File
              (''# Generated by MoleditPy (ORCA xyz2inp GUI)'' @ [nl] @
               pal_line (sb_value (sb_nprocs d)) @ [nl] @
               maxcore_line (sb_value (sb_maxcore d)) @ [nl] @
               '''' @ [nl] @
               '''' @ [nl] @
               '''' @ [nl] @
               xyz_line (sb_value (sb_charge d)) (sb_value (sb_mult d)) @ [nl] @
               coords_of (xyz_block mol) @ [nl] @
               ''*'' @ [nl]))\<rparr>\<rparr>"
  unfolding generate_file_py_writes [where getSaveFileName = getSaveFileName, OF assms(2-7)]
  by (simp add: written_text_def assms(1) PLUGIN_NAME_def)

theorem empty_template_written_witness:
  "generate_file_py (append ''/work/'')
     \<lparr>files = [''none.tmplt'' \<mapsto> File [nl, nl]], write_error = Map.empty\<rparr>
     \<lparr>current_mol = Some \<lparr>formal_charge = 0, radical_electrons = [0],
        xyz_block = ''1'' @ [nl, nl] @ ''Ne 0.000000 0.000000 0.000000'' @ [nl]\<rparr>,
      current_file_path = None\<rparr>
     \<lparr>le_template = ''none.tmplt'', le_suffix = [],
      sb_charge = \<lparr>sb_min = - 10, sb_max = 10, sb_value = 0\<rparr>,
      sb_mult = \<lparr>sb_min = 1, sb_max = 10, sb_value = 1\<rparr>,
      sb_nprocs = \<lparr>sb_min = 1, sb_max = 128, sb_value = 2\<rparr>,
      sb_maxcore = \<lparr>sb_min = 100, sb_max = 100000, sb_value = 500\<rparr>\<rparr>
   = \<lparr>shown = Some (Information ''Success''
                   (''Input file generated:'' @ [nl] @ ''/work/orca_input.inp'')),
      accepted = True,
      world_after =
        \<lparr>files = [''none.tmplt'' \<mapsto> File [nl, nl],
                  ''/work/orca_input.inp'' \<mapsto> File
              (''# Generated by MoleditPy (ORCA xyz2inp GUI)'' @ [nl] @
               ''%pal nprocs 2 end'' @ [nl] @
               ''%MaxCore 500'' @ [nl] @
               '''' @ [nl] @
               '''' @ [nl] @
               '''' @ [nl] @
               ''* xyz 0 1'' @ [nl] @
               ''Ne 0.000000 0.000000 0.000000'' @ [nl] @
               ''*'' @ [nl])],
         write_error = Map.empty\<rparr>\<rparr>"
  using empty_template_written
    [of "[nl, nl]"
        "\<lparr>le_template = ''none.tmplt'', le_suffix = [],
          sb_charge = \<lparr>sb_min = - 10, sb_max = 10, sb_value = 0\<rparr>,
          sb_mult = \<lparr>sb_min = 1, sb_max = 10, sb_value = 1\<rparr>,
          sb_nprocs = \<lparr>sb_min = 1, sb_max = 128, sb_value = 2\<rparr>,
          sb_maxcore = \<lparr>sb_min = 100, sb_max = 100000, sb_value = 500\<rparr>\<rparr>"
        "\<lparr>files = [''none.tmplt'' \<mapsto> File [nl, nl]], write_error = Map.empty\<rparr>"
        "\<lparr>current_mol = Some \<lparr>formal_charge = 0, radical_electrons = [0],
            xyz_block = ''1'' @ [nl, nl] @ ''Ne 0.000000 0.000000 0.000000'' @ [nl]\<rparr>,
          current_file_path = None\<rparr>"
        _ "append ''/work/''" "''/work/orca_input.inp''"]
  by (simp add: default_name_of_def py_strip_def py_isspace_def coords_of_def
        pal_line_def maxcore_line_def xyz_line_def str_int_def str_nat.simps digit_char_def)

text \<open>
  C4. When the template path is empty or names nothing that exists, the run ends with the
  warning \<open>Template file not found.\<close> and nothing is written: the file system after the
  run is the file system before it. The check comes first in \<open>generate_file\<close>, before the
  save dialog and before any file is opened.
\<close>

theorem missing_template_no_output:
  assumes "le_template d = [] \<or> files w (le_template d) = None"
  shows "generate_file_py getSaveFileName w mw d =
           \<lparr>shown = Some (Warning ''Error'' ''Template file not found.''),
            accepted = False, world_after = w\<rparr>"
  using assms by (auto simp: generate_file_py_def os_path_exists_def Let_def)

theorem missing_template_no_output_witness:
  "generate_file_py (append ''/work/'')
     \<lparr>files = [''other.tmplt'' \<mapsto> File ''! HF''], write_error = Map.empty\<rparr>
     \<lparr>current_mol = Some \<lparr>formal_charge = 0, radical_electrons = [0], xyz_block = []\<rparr>,
      current_file_path = None\<rparr>
     \<lparr>le_template = ''b3lyp.tmplt'', le_suffix = [],
      sb_charge = \<lparr>sb_min = - 10, sb_max = 10, sb_value = 0\<rparr>,
      sb_mult = \<lparr>sb_min = 1, sb_max = 10, sb_value = 1\<rparr>,
      sb_nprocs = \<lparr>sb_min = 1, sb_max = 128, sb_value = 1\<rparr>,
      sb_maxcore = \<lparr>sb_min = 100, sb_max = 100000, sb_value = 1000\<rparr>\<rparr>
   = \<lparr>shown = Some (Warning ''Error'' ''Template file not found.''),
      accepted = False,
      world_after = \<lparr>files = [''other.tmplt'' \<mapsto> File ''! HF''], write_error = Map.empty\<rparr>\<rparr>"
  by (rule missing_template_no_output) simp

text \<open>
  C5. The claim: with zero atoms the line \<open>* xyz <charge> <mult>\<close> is immediately followed
  by the closing \<open>*\<close>, with no line between them. The code writes the coordinate lines
  and a newline in every case, so with no atoms an empty line stands between the two.
\<close>

theorem no_atoms_blank_line:
  "generate_file_py (append ''/work/'')
     \<lparr>files = [''hf.tmplt'' \<mapsto> File ''! HF''], write_error = Map.empty\<rparr>
     \<lparr>current_mol = Some \<lparr>formal_charge = 0, radical_electrons = [],
        xyz_block = MolToXYZBlock (ljust 3) (rjust 11) [] (Some [])\<rparr>,
      current_file_path = None\<rparr>
     \<lparr>le_template = ''hf.tmplt'', le_suffix = [],
      sb_charge = \<lparr>sb_min = - 10, sb_max = 10, sb_value = 0\<rparr>,
      sb_mult = \<lparr>sb_min = 1, sb_max = 10, sb_value = 1\<rparr>,
      sb_nprocs = \<lparr>sb_min = 1, sb_max = 128, sb_value = 1\<rparr>,
      sb_maxcore = \<lparr>sb_min = 100, sb_max = 100000, sb_value = 1000\<rparr>\<rparr>
   = \<lparr>shown = Some (Information ''Success''
                   (''Input file generated:'' @ [nl] @ ''/work/orca_input.inp'')),
      accepted = True,
      world_after =
        \<lparr>files = [''hf.tmplt'' \<mapsto> File ''! HF'',
                  ''/work/orca_input.inp'' \<mapsto> File
              (''# Generated by MoleditPy (ORCA xyz2inp GUI)'' @ [nl] @
               ''%pal nprocs 1 end'' @ [nl] @
               ''%MaxCore 1000'' @ [nl] @
               '''' @ [nl] @
               ''! HF'' @ [nl] @
               '''' @ [nl] @
               ''* xyz 0 1'' @ [nl] @
               '''' @ [nl] @
               ''*'' @ [nl])],
         write_error = Map.empty\<rparr>\<rparr>"
  by (simp add: generate_file_py_def os_path_exists_def read_text_def write_text_def Let_def
        default_name_of_def py_strip_def py_isspace_def coords_of_def MolToXYZBlock_def
        written_text_def pal_line_def maxcore_line_def xyz_line_def PLUGIN_NAME_def
        str_int_def str_nat.simps digit_char_def)

text \<open>
  C5, as the code has it: for a molecule without atoms the coordinate block is the line
  \<open>* xyz <charge> <mult>\<close>, one empty line, and the closing \<open>*\<close>. The XYZ block of such
  a molecule is the count line and a one-line comment, or the empty text when the molecule
  has no conformer; the file is the same in both cases.
\<close>

theorem no_atoms_coordinate_block:
  assumes "xyz_block mol = MolToXYZBlock fs fmt comment conformer"
    and "conformer = None \<or> conformer = Some []"
    and "nl \<notin> set comment"
    and "le_template d \<noteq> []"
    and "files w (le_template d) = Some (File content)"
    and "current_mol mw = Some mol"
    and "getSaveFileName (default_name_of mw (py_strip (le_suffix d))) = out"
    and "out \<noteq> []"
    and "write_error w out = None"
  shows "generate_file_py getSaveFileName w mw d =
           \<lparr>shown = Some (Information ''Success'' (''Input file generated:'' @ [nl] @ out)),
            accepted = True,
            world_after = w\<lparr>files := (files w)(out \<mapsto> File
              (''# Generated by MoleditPy (ORCA xyz2inp GUI)'' @ [nl] @
               pal_line (sb_value (sb_nprocs d)) @ [nl] @
               maxcore_line (sb_value (sb_maxcore d)) @ [nl] @
               '''' @ [nl] @
               py_strip content @ [nl] @
               '''' @ [nl] @
               xyz_line (sb_value (sb_charge d)) (sb_value (sb_mult d)) @ [nl] @
               '''' @ [nl] @
               ''*'' @ [nl]))\<rparr>\<rparr>"
proof -
  have "coords_of (xyz_block mol) = []"
    using assms(1,2,3)
    by (auto simp: coords_of_MolToXYZBlock_Nil coords_of_MolToXYZBlock_None)
  then show ?thesis
    unfolding generate_file_py_writes [where getSaveFileName = getSaveFileName, OF assms(4-9)]
    by (simp add: written_text_def PLUGIN_NAME_def)
qed

theorem no_atoms_coordinate_block_witness:
  "generate_file_py (append ''/work/'')
     \<lparr>files = [''mp2.tmplt'' \<mapsto> File ''! MP2''], write_error = Map.empty\<rparr>
     \<lparr>current_mol = Some \<lparr>formal_charge = 0, radical_electrons = [],
        xyz_block = MolToXYZBlock (ljust 3) (rjust 11) ''empty'' (Some [])\<rparr>,
      current_file_path = None\<rparr>
     \<lparr>le_template = ''mp2.tmplt'', le_suffix = [],
      sb_charge = \<lparr>sb_min = - 10, sb_max = 10, sb_value = 2\<rparr>,
      sb_mult = \<lparr>sb_min = 1, sb_max = 10, sb_value = 3\<rparr>,
      sb_nprocs = \<lparr>sb_min = 1, sb_max = 128, sb_value = 1\<rparr>,
      sb_maxcore = \<lparr>sb_min = 100, sb_max = 100000, sb_value = 1000\<rparr>\<rparr>
   = \<lparr>shown = Some (Information ''Success''
                   (''Input file generated:'' @ [nl] @ ''/work/orca_input.inp'')),
      accepted = True,
      world_after =
        \<lparr>files = [''mp2.tmplt'' \<mapsto> File ''! MP2'',
                  ''/work/orca_input.inp'' \<mapsto> File
              (''# Generated by MoleditPy (ORCA xyz2inp GUI)'' @ [nl] @
               ''%pal nprocs 1 end'' @ [nl] @
               ''%MaxCore 1000'' @ [nl] @
               '''' @ [nl] @
               ''! MP2'' @ [nl] @
               '''' @ [nl] @
               ''* xyz 2 3'' @ [nl] @
               '''' @ [nl] @
               ''*'' @ [nl])],
         write_error = Map.empty\<rparr>\<rparr>"
  using no_atoms_coordinate_block
    [where getSaveFileName = "append ''/work/''" and fs = "ljust 3"
       and fmt = "rjust 11" and comment = "''empty''"
       and conformer = "Some ([] :: string atom list)"
       and mol = "\<lparr>formal_charge = 0, radical_electrons = [],
          xyz_block = MolToXYZBlock (ljust 3) (rjust 11) ''empty'' (Some [])\<rparr>"
       and d = "\<lparr>le_template = ''mp2.tmplt'', le_suffix = [],
          sb_charge = \<lparr>sb_min = - 10, sb_max = 10, sb_value = 2\<rparr>,
          sb_mult = \<lparr>sb_min = 1, sb_max = 10, sb_value = 3\<rparr>,
          sb_nprocs = \<lparr>sb_min = 1, sb_max = 128, sb_value = 1\<rparr>,
          sb_maxcore = \<lparr>sb_min = 100, sb_max = 100000, sb_value = 1000\<rparr>\<rparr>"
       and w = "\<lparr>files = [''mp2.tmplt'' \<mapsto> File ''! MP2''], write_error = Map.empty\<rparr>"
       and content = "''! MP2''"
       and mw = "\<lparr>current_mol = Some \<lparr>formal_charge = 0, radical_electrons = [],
            xyz_block = MolToXYZBlock (ljust 3) (rjust 11) ''empty'' (Some [])\<rparr>,
          current_file_path = None\<rparr>"
       and out = "''/work/orca_input.inp''"]
  by (simp add: default_name_of_def py_strip_def py_isspace_def
        pal_line_def maxcore_line_def xyz_line_def str_int_def str_nat.simps digit_char_def)

text \<open>
  C6. The text of the template file is its stripped text with whitespace only before and
  after it; the stripped text neither starts nor ends with whitespace; and the file
  written is a header that does not depend on the template, then the stripped text once
  and unchanged, then two newlines, then the coordinate block, which does not depend on
  the template either.
\<close>

theorem template_block_verbatim:
  assumes "le_template d \<noteq> []"
    and "files w (le_template d) = Some (File content)"
    and "current_mol mw = Some mol"
    and "getSaveFileName (default_name_of mw (py_strip (le_suffix d))) = out"
    and "out \<noteq> []"
    and "write_error w out = None"
  shows "\<exists>before after.
           content = before @ py_strip content @ after \<and>
           list_all py_isspace before \<and> list_all py_isspace after \<and>
           (py_strip content \<noteq> [] \<longrightarrow>
              \<not> py_isspace (hd (py_strip content)) \<and>
              \<not> py_isspace (last (py_strip content))) \<and>
           files (world_after (generate_file_py getSaveFileName w mw d)) out =
             Some (File
               ((''# Generated by MoleditPy (ORCA xyz2inp GUI)'' @ [nl] @
                 pal_line (sb_value (sb_nprocs d)) @ [nl] @
                 maxcore_line (sb_value (sb_maxcore d)) @ [nl, nl]) @
                py_strip content @ [nl, nl] @
                (xyz_line (sb_value (sb_charge d)) (sb_value (sb_mult d)) @ [nl] @
                 coords_of (xyz_block mol) @ [nl] @
                 ''*'' @ [nl])))"
proof -
  obtain before after where
    "content = before @ py_strip content @ after"
    "list_all py_isspace before" "list_all py_isspace after"
    using py_strip_parts [of content] by blast
  moreover have "py_strip content \<noteq> [] \<longrightarrow>
      \<not> py_isspace (hd (py_strip content)) \<and> \<not> py_isspace (last (py_strip content))"
    using py_strip_ends by blast
  moreover have "files (world_after (generate_file_py getSaveFileName w mw d)) out =
             Some (File
               ((''# Generated by MoleditPy (ORCA xyz2inp GUI)'' @ [nl] @
                 pal_line (sb_value (sb_nprocs d)) @ [nl] @
                 maxcore_line (sb_value (sb_maxcore d)) @ [nl, nl]) @
                py_strip content @ [nl, nl] @
                (xyz_line (sb_value (sb_charge d)) (sb_value (sb_mult d)) @ [nl] @
                 coords_of (xyz_block mol) @ [nl] @
                 ''*'' @ [nl])))"
    unfolding generate_file_py_writes [where getSaveFileName = getSaveFileName, OF assms]
    by (simp add: written_text_def PLUGIN_NAME_def)
  ultimately show ?thesis by blast
qed

theorem template_block_verbatim_witness:
  "\<exists>before after.
     [CHR '' '', nl] @ ''! CCSD  cc-pVDZ'' @ [nl] @ ''%scf maxiter 50 end'' @ [nl, nl]
       = before @ (''! CCSD  cc-pVDZ'' @ [nl] @ ''%scf maxiter 50 end'') @ after \<and>
     list_all py_isspace before \<and> list_all py_isspace after \<and>
     files (world_after (generate_file_py (append ''/work/'')
        \<lparr>files = [''cc.tmplt'' \<mapsto> File
             ([CHR '' '', nl] @ ''! CCSD  cc-pVDZ'' @ [nl] @ ''%scf maxiter 50 end'' @ [nl, nl])],
         write_error = Map.empty\<rparr>
        \<lparr>current_mol = Some \<lparr>formal_charge = 0, radical_electrons = [0],
           xyz_block = ''1'' @ [nl, nl] @ ''Ar 0.000000 0.000000 0.000000'' @ [nl]\<rparr>,
         current_file_path = None\<rparr>
        \<lparr>le_template = ''cc.tmplt'', le_suffix = [],
         sb_charge = \<lparr>sb_min = - 10, sb_max = 10, sb_value = 0\<rparr>,
         sb_mult = \<lparr>sb_min = 1, sb_max = 10, sb_value = 1\<rparr>,
         sb_nprocs = \<lparr>sb_min = 1, sb_max = 128, sb_value = 8\<rparr>,
         sb_maxcore = \<lparr>sb_min = 100, sb_max = 100000, sb_value = 4000\<rparr>\<rparr>))
       ''/work/orca_input.inp''
     = Some (File
         (''# Generated by MoleditPy (ORCA xyz2inp GUI)'' @ [nl] @
          ''%pal nprocs 8 end'' @ [nl] @
          ''%MaxCore 4000'' @ [nl] @
          '''' @ [nl] @
          ''! CCSD  cc-pVDZ'' @ [nl] @
          ''%scf maxiter 50 end'' @ [nl] @
          '''' @ [nl] @
          ''* xyz 0 1'' @ [nl] @
          ''Ar 0.000000 0.000000 0.000000'' @ [nl] @
          ''*'' @ [nl]))"
proof -
  have s: "py_strip ([CHR '' '', nl] @ ''! CCSD  cc-pVDZ'' @ [nl] @ ''%scf maxiter 50 end'' @ [nl, nl])
           = ''! CCSD  cc-pVDZ'' @ [nl] @ ''%scf maxiter 50 end''"
    by (simp add: py_strip_def py_isspace_def)
  show ?thesis
    using template_block_verbatim
      [of "\<lparr>le_template = ''cc.tmplt'', le_suffix = [],
            sb_charge = \<lparr>sb_min = - 10, sb_max = 10, sb_value = 0\<rparr>,
            sb_mult = \<lparr>sb_min = 1, sb_max = 10, sb_value = 1\<rparr>,
            sb_nprocs = \<lparr>sb_min = 1, sb_max = 128, sb_value = 8\<rparr>,
            sb_maxcore = \<lparr>sb_min = 100, sb_max = 100000, sb_value = 4000\<rparr>\<rparr>"
          "\<lparr>files = [''cc.tmplt'' \<mapsto> File
             ([CHR '' '', nl] @ ''! CCSD  cc-pVDZ'' @ [nl] @ ''%scf maxiter 50 end'' @ [nl, nl])],
            write_error = Map.empty\<rparr>"
          "[CHR '' '', nl] @ ''! CCSD  cc-pVDZ'' @ [nl] @ ''%scf maxiter 50 end'' @ [nl, nl]"
          "\<lparr>current_mol = Some \<lparr>formal_charge = 0, radical_electrons = [0],
              xyz_block = ''1'' @ [nl, nl] @ ''Ar 0.000000 0.000000 0.000000'' @ [nl]\<rparr>,
            current_file_path = None\<rparr>"
          _ "append ''/work/''" "''/work/orca_input.inp''"]
    unfolding s
    by (simp add: default_name_of_def py_strip_def py_isspace_def coords_of_def
          pal_line_def maxcore_line_def xyz_line_def str_int_def str_nat.simps digit_char_def)
qed

text \<open>
  C7. The claim: the multiplicity suggested for a molecule with \<open>r\<close> radical electrons is
  \<open>r + 1\<close>. The value goes through \<open>sb_mult.setValue\<close>, and the field has the range 1 to
  10: for ten atoms with one radical electron each, the suggestion is 10 and not 11.
\<close>

theorem ten_radicals_multiplicity_ten:
  "num_radical_electrons
     \<lparr>formal_charge = 0, radical_electrons = [1, 1, 1, 1, 1, 1, 1, 1, 1, 1], xyz_block = []\<rparr>
   = 10 \<and>
   init_dialog Map.empty
     \<lparr>current_mol = Some \<lparr>formal_charge = 0,
        radical_electrons = [1, 1, 1, 1, 1, 1, 1, 1, 1, 1], xyz_block = []\<rparr>,
      current_file_path = None\<rparr>
   = Inr (\<lparr>le_template = [], le_suffix = [],
           sb_charge = \<lparr>sb_min = - 10, sb_max = 10, sb_value = 0\<rparr>,
           sb_mult = \<lparr>sb_min = 1, sb_max = 10, sb_value = 10\<rparr>,
           sb_nprocs = \<lparr>sb_min = 1, sb_max = 128, sb_value = 1\<rparr>,
           sb_maxcore = \<lparr>sb_min = 100, sb_max = 100000, sb_value = 1000\<rparr>\<rparr>, [])"
  by (simp add: init_dialog_eq load_defaults_def then_do_def env_override_def estimate_def
        setValue_def c_int_ok_def bound_def num_radical_electrons_def)

text \<open>
  C7, as the code has it: the multiplicity suggested is \<open>r + 1\<close> as long as \<open>r\<close> is at most
  9, and 10, the maximum of the field, for a larger \<open>r\<close>; it is always between 1 and 10.
  (A sum so large that \<open>r + 1\<close> does not fit a C++ \<open>int\<close> makes \<open>setValue\<close> raise inside
  the \<open>try\<close> block, and the field keeps its initial value 1.)
\<close>

theorem default_multiplicity:
  assumes "init_dialog environ mw = Inr (d, out)"
    and "current_mol mw = Some mol"
  shows "sb_value (sb_mult d) =
           (if num_radical_electrons mol + 1 \<le> 2147483647
            then min 10 (num_radical_electrons mol + 1) else 1) \<and>
         1 \<le> sb_value (sb_mult d) \<and> sb_value (sb_mult d) \<le> 10 \<and>
         (num_radical_electrons mol \<le> 9 \<longrightarrow>
            sb_value (sb_mult d) = num_radical_electrons mol + 1)"
proof -
  let ?r = "num_radical_electrons mol"
  from assms(1) obtain np mc where
    r: "(d, out) = estimate mw
           (\<lparr>le_template = [], le_suffix = [],
             sb_charge = \<lparr>sb_min = - 10, sb_max = 10, sb_value = 0\<rparr>,
             sb_mult = \<lparr>sb_min = 1, sb_max = 10, sb_value = 1\<rparr>,
             sb_nprocs = \<lparr>sb_min = 1, sb_max = 128, sb_value = 1\<rparr>,
             sb_maxcore = \<lparr>sb_min = 100, sb_max = 100000, sb_value = 1000\<rparr>\<rparr>
            \<lparr>sb_nprocs := np, sb_maxcore := mc\<rparr>)"
    unfolding init_dialog_eq load_defaults_Inr_iff by auto
  have "d = fst (d, out)" by simp
  then have m: "sb_value (sb_mult d) =
      (if c_int_ok (?r + 1) then bound \<lparr>sb_min = 1, sb_max = 10, sb_value = 1\<rparr> (?r + 1) else 1)"
    unfolding r by (simp add: estimate_mult [OF assms(2)])
  have n: "0 \<le> ?r" by (rule num_radical_electrons_nonneg)
  then have "c_int_ok (?r + 1) \<longleftrightarrow> ?r + 1 \<le> 2147483647" by (simp add: c_int_ok_def)
  with m n show ?thesis by (auto simp: bound_def)
qed

theorem default_multiplicity_witness:
  "init_dialog Map.empty
     \<lparr>current_mol = Some \<lparr>formal_charge = 0, radical_electrons = [1, 0, 1], xyz_block = []\<rparr>,
      current_file_path = None\<rparr>
   = Inr (\<lparr>le_template = [], le_suffix = [],
           sb_charge = \<lparr>sb_min = - 10, sb_max = 10, sb_value = 0\<rparr>,
           sb_mult = \<lparr>sb_min = 1, sb_max = 10, sb_value = 3\<rparr>,
           sb_nprocs = \<lparr>sb_min = 1, sb_max = 128, sb_value = 1\<rparr>,
           sb_maxcore = \<lparr>sb_min = 100, sb_max = 100000, sb_value = 1000\<rparr>\<rparr>, []) \<and>
   num_radical_electrons
     \<lparr>formal_charge = 0, radical_electrons = [1, 0, 1], xyz_block = []\<rparr> + 1 = 3"
proof -
  have i: "init_dialog Map.empty
     \<lparr>current_mol = Some \<lparr>formal_charge = 0, radical_electrons = [1, 0, 1], xyz_block = []\<rparr>,
      current_file_path = None\<rparr>
   = Inr (\<lparr>le_template = [], le_suffix = [],
           sb_charge = \<lparr>sb_min = - 10, sb_max = 10, sb_value = 0\<rparr>,
           sb_mult = \<lparr>sb_min = 1, sb_max = 10, sb_value = 3\<rparr>,
           sb_nprocs = \<lparr>sb_min = 1, sb_max = 128, sb_value = 1\<rparr>,
           sb_maxcore = \<lparr>sb_min = 100, sb_max = 100000, sb_value = 1000\<rparr>\<rparr>, [])"
    by (simp add: init_dialog_eq load_defaults_def then_do_def env_override_def estimate_def
          setValue_def c_int_ok_def bound_def num_radical_electrons_def)
  show ?thesis
    using default_multiplicity [OF i] i by (simp add: num_radical_electrons_def)
qed

text \<open>
  C8. An override of the process count or of the memory per core that \<open>int\<close> refuses is
  ignored without a trace: the dialog is built exactly as if the variable were not set
  (same fields, same printed output, same result), the field keeps its built-in default
  (1 process, 1000 MB), and the refused text raises nothing by itself.
\<close>

theorem malformed_override_ignored:
  assumes "py_int s = Inl ValueError"
  shows "init_dialog (environ(''orca_xyz2inp_nprocs'' \<mapsto> s)) mw =
           init_dialog (environ(''orca_xyz2inp_nprocs'' := None)) mw \<and>
         init_dialog (environ(''orca_xyz2inp_maxcore'' \<mapsto> s)) mw =
           init_dialog (environ(''orca_xyz2inp_maxcore'' := None)) mw \<and>
         (\<forall>d out. init_dialog (environ(''orca_xyz2inp_nprocs'' \<mapsto> s)) mw = Inr (d, out)
            \<longrightarrow> sb_value (sb_nprocs d) = 1) \<and>
         (\<forall>d out. init_dialog (environ(''orca_xyz2inp_maxcore'' \<mapsto> s)) mw = Inr (d, out)
            \<longrightarrow> sb_value (sb_maxcore d) = 1000) \<and>
         (environ ''orca_xyz2inp_maxcore'' = None \<longrightarrow>
            (\<exists>d out. init_dialog (environ(''orca_xyz2inp_nprocs'' \<mapsto> s)) mw = Inr (d, out))) \<and>
         (environ ''orca_xyz2inp_nprocs'' = None \<longrightarrow>
            (\<exists>d out. init_dialog (environ(''orca_xyz2inp_maxcore'' \<mapsto> s)) mw = Inr (d, out)))"
proof -
  let ?NP = "''orca_xyz2inp_nprocs''" and ?MC = "''orca_xyz2inp_maxcore''"
  have k: "?NP \<noteq> ?MC" by simp
  have np: "env_override (environ(?NP \<mapsto> s)) ?NP sb = Inr sb" for sb
    using assms by (simp add: env_override_malformed)
  have mc: "env_override (environ(?MC \<mapsto> s)) ?MC sb = Inr sb" for sb
    using assms by (simp add: env_override_malformed)
  have np0: "env_override (environ(?NP := None)) ?NP sb = Inr sb" for sb
    by (simp add: env_override_unset)
  have mc0: "env_override (environ(?MC := None)) ?MC sb = Inr sb" for sb
    by (simp add: env_override_unset)
  have np': "env_override (environ(?NP \<mapsto> s)) ?MC sb = env_override environ ?MC sb"
            "env_override (environ(?NP := None)) ?MC sb = env_override environ ?MC sb" for sb
    by (simp_all add: env_override_def)
  have mc': "env_override (environ(?MC \<mapsto> s)) ?NP sb = env_override environ ?NP sb"
            "env_override (environ(?MC := None)) ?NP sb = env_override environ ?NP sb" for sb
    by (simp_all add: env_override_def)
  have a: "init_dialog (environ(?NP \<mapsto> s)) mw = init_dialog (environ(?NP := None)) mw"
    by (simp only: init_dialog_eq load_defaults_def np np0 np')
  have b: "init_dialog (environ(?MC \<mapsto> s)) mw = init_dialog (environ(?MC := None)) mw"
    by (simp only: init_dialog_eq load_defaults_def mc mc0 mc')
  have c: "sb_value (sb_nprocs d) = 1"
    if "init_dialog (environ(?NP \<mapsto> s)) mw = Inr (d, out)" for d out
  proof -
    from that obtain np' mc' where
      "env_override (environ(?NP \<mapsto> s)) ?NP \<lparr>sb_min = 1, sb_max = 128, sb_value = 1\<rparr> = Inr np'"
      and r: "(d, out) = estimate mw
           (\<lparr>le_template = [], le_suffix = [],
             sb_charge = \<lparr>sb_min = - 10, sb_max = 10, sb_value = 0\<rparr>,
             sb_mult = \<lparr>sb_min = 1, sb_max = 10, sb_value = 1\<rparr>,
             sb_nprocs = \<lparr>sb_min = 1, sb_max = 128, sb_value = 1\<rparr>,
             sb_maxcore = \<lparr>sb_min = 100, sb_max = 100000, sb_value = 1000\<rparr>\<rparr>
            \<lparr>sb_nprocs := np', sb_maxcore := mc'\<rparr>)"
      unfolding init_dialog_eq load_defaults_Inr_iff by auto
    then have "np' = \<lparr>sb_min = 1, sb_max = 128, sb_value = 1\<rparr>" by (simp add: np)
    moreover from r have "sb_nprocs d = np'"
      using estimate_keeps(1) by (metis dialog.select_convs(5) dialog.update_convs(5,6) fst_conv
          dialog.surjective)
    ultimately show ?thesis by simp
  qed
  have d: "sb_value (sb_maxcore d) = 1000"
    if "init_dialog (environ(?MC \<mapsto> s)) mw = Inr (d, out)" for d out
  proof -
    from that obtain np' mc' where
      "env_override (environ(?MC \<mapsto> s)) ?MC \<lparr>sb_min = 100, sb_max = 100000, sb_value = 1000\<rparr>
         = Inr mc'"
      and r: "(d, out) = estimate mw
           (\<lparr>le_template = [], le_suffix = [],
             sb_charge = \<lparr>sb_min = - 10, sb_max = 10, sb_value = 0\<rparr>,
             sb_mult = \<lparr>sb_min = 1, sb_max = 10, sb_value = 1\<rparr>,
             sb_nprocs = \<lparr>sb_min = 1, sb_max = 128, sb_value = 1\<rparr>,
             sb_maxcore = \<lparr>sb_min = 100, sb_max = 100000, sb_value = 1000\<rparr>\<rparr>
            \<lparr>sb_nprocs := np', sb_maxcore := mc'\<rparr>)"
      unfolding init_dialog_eq load_defaults_Inr_iff by auto
    then have "mc' = \<lparr>sb_min = 100, sb_max = 100000, sb_value = 1000\<rparr>" by (simp add: mc)
    moreover from r have "sb_maxcore d = mc'"
      using estimate_keeps(2) by (metis dialog.select_convs(6) dialog.update_convs(5,6) fst_conv
          dialog.surjective)
    ultimately show ?thesis by simp
  qed
  have e: "\<exists>d out. init_dialog (environ(?NP \<mapsto> s)) mw = Inr (d, out)"
    if "environ ?MC = None"
  proof -
    have "env_override (environ(?NP \<mapsto> s)) ?MC sb = Inr sb" for sb
      using that by (simp add: env_override_def)
    then show ?thesis
      by (simp add: init_dialog_eq load_defaults_def then_do_def np)
  qed
  have f: "\<exists>d out. init_dialog (environ(?MC \<mapsto> s)) mw = Inr (d, out)"
    if "environ ?NP = None"
  proof -
    have "env_override (environ(?MC \<mapsto> s)) ?NP sb = Inr sb" for sb
      using that by (simp add: env_override_def)
    then show ?thesis
      by (simp add: init_dialog_eq load_defaults_def then_do_def mc)
  qed
  from a b c d e f show ?thesis by blast
qed

theorem malformed_override_ignored_witness:
  "py_int ''four'' = Inl ValueError \<and>
   init_dialog [''orca_xyz2inp_nprocs'' \<mapsto> ''four'']
     \<lparr>current_mol = None, current_file_path = None\<rparr>
   = init_dialog Map.empty \<lparr>current_mol = None, current_file_path = None\<rparr> \<and>
   init_dialog [''orca_xyz2inp_nprocs'' \<mapsto> ''four'']
     \<lparr>current_mol = None, current_file_path = None\<rparr>
   = Inr (\<lparr>le_template = [], le_suffix = [],
           sb_charge = \<lparr>sb_min = - 10, sb_max = 10, sb_value = 0\<rparr>,
           sb_mult = \<lparr>sb_min = 1, sb_max = 10, sb_value = 1\<rparr>,
           sb_nprocs = \<lparr>sb_min = 1, sb_max = 128, sb_value = 1\<rparr>,
           sb_maxcore = \<lparr>sb_min = 100, sb_max = 100000, sb_value = 1000\<rparr>\<rparr>, [])"
proof -
  have p: "py_int ''four'' = Inl ValueError"
    by (simp add: py_int_def int_isspace_def parse_unsigned_def is_digit_def)
  have "init_dialog Map.empty \<lparr>current_mol = None, current_file_path = None\<rparr>
        = Inr (\<lparr>le_template = [], le_suffix = [],
           sb_charge = \<lparr>sb_min = - 10, sb_max = 10, sb_value = 0\<rparr>,
           sb_mult = \<lparr>sb_min = 1, sb_max = 10, sb_value = 1\<rparr>,
           sb_nprocs = \<lparr>sb_min = 1, sb_max = 128, sb_value = 1\<rparr>,
           sb_maxcore = \<lparr>sb_min = 100, sb_max = 100000, sb_value = 1000\<rparr>\<rparr>, [])"
    by (simp add: init_dialog_eq load_defaults_def then_do_def env_override_def estimate_def)
  with p show ?thesis
    using malformed_override_ignored
      [OF p, of Map.empty "\<lparr>current_mol = None, current_file_path = None\<rparr>"]
    by simp
qed

text \<open>
  C9. The claim: for every molecule with at least one atom the file holds one coordinate
  line per atom. A molecule without a conformer has atoms and no coordinates: its XYZ
  block is the empty text, and the file written for a molecule of two atoms holds no atom
  line at all, only the empty line between \<open>* xyz 0 1\<close> and \<open>*\<close>.
\<close>

theorem no_conformer_no_atom_lines:
  "length (radical_electrons
     \<lparr>formal_charge = 0, radical_electrons = [0, 0],
      xyz_block = MolToXYZBlock (ljust 3) (rjust 11) [] (None :: string atom list option)\<rparr>)
   = 2
   \<and>
   generate_file_py (append ''/work/'')
     \<lparr>files = [''hf.tmplt'' \<mapsto> File ''! HF''], write_error = Map.empty\<rparr>
     \<lparr>current_mol = Some \<lparr>formal_charge = 0, radical_electrons = [0, 0],
        xyz_block = MolToXYZBlock (ljust 3) (rjust 11) [] (None :: string atom list option)\<rparr>,
      current_file_path = None\<rparr>
     \<lparr>le_template = ''hf.tmplt'', le_suffix = [],
      sb_charge = \<lparr>sb_min = - 10, sb_max = 10, sb_value = 0\<rparr>,
      sb_mult = \<lparr>sb_min = 1, sb_max = 10, sb_value = 1\<rparr>,
      sb_nprocs = \<lparr>sb_min = 1, sb_max = 128, sb_value = 1\<rparr>,
      sb_maxcore = \<lparr>sb_min = 100, sb_max = 100000, sb_value = 1000\<rparr>\<rparr>
   = \<lparr>shown = Some (Information ''Success''
                   (''Input file generated:'' @ [nl] @ ''/work/orca_input.inp'')),
      accepted = True,
      world_after =
        \<lparr>files = [''hf.tmplt'' \<mapsto> File ''! HF'',
                  ''/work/orca_input.inp'' \<mapsto> File
              (''# Generated by MoleditPy (ORCA xyz2inp GUI)'' @ [nl] @
               ''%pal nprocs 1 end'' @ [nl] @
               ''%MaxCore 1000'' @ [nl] @
               '''' @ [nl] @
               ''! HF'' @ [nl] @
               '''' @ [nl] @
               ''* xyz 0 1'' @ [nl] @
               '''' @ [nl] @
               ''*'' @ [nl])],
         write_error = Map.empty\<rparr>\<rparr>"
  by (simp add: generate_file_py_def os_path_exists_def read_text_def write_text_def Let_def
        default_name_of_def py_strip_def py_isspace_def coords_of_def MolToXYZBlock_def
        written_text_def pal_line_def maxcore_line_def xyz_line_def PLUGIN_NAME_def
        str_int_def str_nat.simps digit_char_def)

text \<open>
  C9, as the code has it: for a molecule with at least one atom that has a conformer, the
  XYZ block is the count line, one comment line and one line per atom (the symbol field,
  then the three coordinate fields, aligned with spaces), and the coordinate lines of the
  file are the lines of the block without its first two, as they are: one line per atom,
  in the order of the atoms, and the first field of each line is the element symbol of its
  atom.
\<close>

theorem coordinate_lines_follow_atoms:
  assumes "xyz_block mol = MolToXYZBlock fs fmt comment (Some atoms)"
    and "atoms \<noteq> []"
    and "nl \<notin> set comment"
    and "\<forall>a \<in> set atoms. well_formed_atom fs fmt a"
    and "le_template d \<noteq> []"
    and "files w (le_template d) = Some (File content)"
    and "current_mol mw = Some mol"
    and "getSaveFileName (default_name_of mw (py_strip (le_suffix d))) = out"
    and "out \<noteq> []"
    and "write_error w out = None"
  shows "\<exists>doc.
           files (world_after (generate_file_py getSaveFileName w mw d)) out = Some (File doc) \<and>
           split_nl (xyz_block mol) =
             str_int (int (length atoms)) # comment # map (atom_line fs fmt) atoms @ [[]] \<and>
           split_nl (coords_of (xyz_block mol)) = drop 2 (butlast (split_nl (xyz_block mol))) \<and>
           split_nl (coords_of (xyz_block mol)) = map (atom_line fs fmt) atoms \<and>
           split_nl doc =
             [''# Generated by MoleditPy (ORCA xyz2inp GUI)'',
              pal_line (sb_value (sb_nprocs d)),
              maxcore_line (sb_value (sb_maxcore d)),
              []]
             @ split_nl (py_strip content)
             @ [[], xyz_line (sb_value (sb_charge d)) (sb_value (sb_mult d))]
             @ map (atom_line fs fmt) atoms
             @ [''*'', []] \<and>
           length (map (atom_line fs fmt) atoms) = length atoms \<and>
           map first_field (map (atom_line fs fmt) atoms) = map symbol atoms"
proof -
  let ?doc = "written_text (sb_value (sb_charge d)) (sb_value (sb_mult d))
                (sb_value (sb_nprocs d)) (sb_value (sb_maxcore d))
                (py_strip content) (coords_of (xyz_block mol))"
  let ?ls = "map (atom_line fs fmt) atoms"
  have f: "files (world_after (generate_file_py getSaveFileName w mw d)) out = Some (File ?doc)"
    unfolding generate_file_py_writes
      [where getSaveFileName = getSaveFileName, OF assms(5-10)]
    by simp
  have b: "split_nl (xyz_block mol) = str_int (int (length atoms)) # comment # ?ls @ [[]]"
    unfolding assms(1) using assms(3,4) by (rule split_nl_MolToXYZBlock)
  have c: "coords_of (xyz_block mol) = join_nl ?ls"
    unfolding assms(1) using assms(2,3,4) by (rule coords_of_MolToXYZBlock)
  have "\<forall>l \<in> set ?ls. nl \<notin> set l" using assms(4) by (auto dest: atom_line_plain(1))
  moreover have "?ls \<noteq> []" using assms(2) by simp
  ultimately have sc: "split_nl (coords_of (xyz_block mol)) = ?ls"
    unfolding c by (simp add: split_nl_join_nl)
  have dr: "split_nl (coords_of (xyz_block mol)) = drop 2 (butlast (split_nl (xyz_block mol)))"
    unfolding sc b by (simp add: butlast_append)
  have s: "split_nl ?doc =
             [''# Generated by MoleditPy (ORCA xyz2inp GUI)'',
              pal_line (sb_value (sb_nprocs d)),
              maxcore_line (sb_value (sb_maxcore d)),
              []]
             @ split_nl (py_strip content)
             @ [[], xyz_line (sb_value (sb_charge d)) (sb_value (sb_mult d))]
             @ ?ls @ [''*'', []]"
    unfolding split_nl_written_text sc by simp
  have ff: "map first_field ?ls = map symbol atoms"
    using assms(4) by (rule first_field_atom_lines)
  from f b dr sc s ff show ?thesis by simp
qed

theorem coordinate_lines_follow_atoms_witness:
  "files (world_after (generate_file_py (append ''/work/'')
      \<lparr>files = [''hf.tmplt'' \<mapsto> File ''! HF STO-3G''], write_error = Map.empty\<rparr>
      \<lparr>current_mol = Some \<lparr>formal_charge = 0, radical_electrons = [0, 0, 0],
         xyz_block = MolToXYZBlock (ljust 3) (rjust 11) ''carbon dioxide''
           (Some [\<lparr>symbol = ''O'', pos_x = ''-1.160000'', pos_y = ''0.000000'',
                   pos_z = ''0.000000''\<rparr>,
                  \<lparr>symbol = ''C'', pos_x = ''0.000000'', pos_y = ''0.000000'',
                   pos_z = ''0.000000''\<rparr>,
                  \<lparr>symbol = ''O'', pos_x = ''1.160000'', pos_y = ''0.000000'',
                   pos_z = ''0.000000''\<rparr>])\<rparr>,
       current_file_path = None\<rparr>
      \<lparr>le_template = ''hf.tmplt'', le_suffix = [],
       sb_charge = \<lparr>sb_min = - 10, sb_max = 10, sb_value = 0\<rparr>,
       sb_mult = \<lparr>sb_min = 1, sb_max = 10, sb_value = 1\<rparr>,
       sb_nprocs = \<lparr>sb_min = 1, sb_max = 128, sb_value = 1\<rparr>,
       sb_maxcore = \<lparr>sb_min = 100, sb_max = 100000, sb_value = 1000\<rparr>\<rparr>))
     ''/work/orca_input.inp''
   = Some (File
       (''# Generated by MoleditPy (ORCA xyz2inp GUI)'' @ [nl] @
        ''%pal nprocs 1 end'' @ [nl] @
        ''%MaxCore 1000'' @ [nl] @
        '''' @ [nl] @
        ''! HF STO-3G'' @ [nl] @
        '''' @ [nl] @
        ''* xyz 0 1'' @ [nl] @
        ''O     -1.160000    0.000000    0.000000'' @ [nl] @
        ''C      0.000000    0.000000    0.000000'' @ [nl] @
        ''O      1.160000    0.000000    0.000000'' @ [nl] @
        ''*'' @ [nl]))
   \<and> map first_field
        [''O     -1.160000    0.000000    0.000000'',
         ''C      0.000000    0.000000    0.000000'',
         ''O      1.160000    0.000000    0.000000'']
      = [''O'', ''C'', ''O'']"
proof -
  let ?atoms = "[\<lparr>symbol = ''O'', pos_x = ''-1.160000'', pos_y = ''0.000000'',
                   pos_z = ''0.000000''\<rparr>,
                 \<lparr>symbol = ''C'', pos_x = ''0.000000'', pos_y = ''0.000000'',
                   pos_z = ''0.000000''\<rparr>,
                 \<lparr>symbol = ''O'', pos_x = ''1.160000'', pos_y = ''0.000000'',
                   pos_z = ''0.000000''\<rparr>]"
  have wf: "\<forall>a \<in> set ?atoms. well_formed_atom (ljust 3) (rjust 11) a"
    by (simp add: well_formed_atom_def right_padded_def left_padded_def is_token_def
          py_isspace_def ljust_3_symbol rjust_11_digits spaces_literal spaces_Suc)
  have l: "map (atom_line (ljust 3) (rjust 11)) ?atoms =
        [''O     -1.160000    0.000000    0.000000'',
         ''C      0.000000    0.000000    0.000000'',
         ''O      1.160000    0.000000    0.000000'']"
    by (simp add: atom_line_def ljust_3_symbol rjust_11_digits spaces_literal)
  show ?thesis
    using coordinate_lines_follow_atoms
      [where getSaveFileName = "append ''/work/''" and fs = "ljust 3" and fmt = "rjust 11"
         and comment = "''carbon dioxide''" and atoms = ?atoms
         and mol = "\<lparr>formal_charge = 0, radical_electrons = [0, 0, 0],
            xyz_block = MolToXYZBlock (ljust 3) (rjust 11) ''carbon dioxide'' (Some ?atoms)\<rparr>"
         and d = "\<lparr>le_template = ''hf.tmplt'', le_suffix = [],
            sb_charge = \<lparr>sb_min = - 10, sb_max = 10, sb_value = 0\<rparr>,
            sb_mult = \<lparr>sb_min = 1, sb_max = 10, sb_value = 1\<rparr>,
            sb_nprocs = \<lparr>sb_min = 1, sb_max = 128, sb_value = 1\<rparr>,
            sb_maxcore = \<lparr>sb_min = 100, sb_max = 100000, sb_value = 1000\<rparr>\<rparr>"
         and w = "\<lparr>files = [''hf.tmplt'' \<mapsto> File ''! HF STO-3G''], write_error = Map.empty\<rparr>"
         and content = "''! HF STO-3G''"
         and mw = "\<lparr>current_mol = Some \<lparr>formal_charge = 0, radical_electrons = [0, 0, 0],
              xyz_block = MolToXYZBlock (ljust 3) (rjust 11) ''carbon dioxide'' (Some ?atoms)\<rparr>,
            current_file_path = None\<rparr>"
         and out = "''/work/orca_input.inp''", OF _ _ _ wf]
    unfolding l
    by (simp add: generate_file_py_def os_path_exists_def read_text_def write_text_def Let_def
          default_name_of_def py_strip_def py_isspace_def coords_of_def MolToXYZBlock_def
          atom_line_def first_field_def ljust_3_symbol rjust_11_digits spaces_literal
          written_text_def pal_line_def maxcore_line_def xyz_line_def PLUGIN_NAME_def
          str_int_def str_nat.simps digit_char_def)
qed

text \<open>
  C10. Every value loaded into a field is brought into the range of the field, and the
  code does so for every value that reaches \<open>setValue\<close> as a C++ \<open>int\<close>: the override
  \<open>2147483647\<close> gives 128 processes. The override \<open>3000000000\<close> is a well-formed integer
  too, but \<open>setValue\<close> cannot take it: the call raises \<open>OverflowError\<close>, the handler
  around it catches \<open>ValueError\<close> only, the exception leaves \<open>load_defaults\<close> and the
  dialog is not built. The neighbouring paths do not fail this way: a text that \<open>int\<close>
  refuses is passed over, and the estimate of charge and multiplicity runs under
  \<open>except Exception\<close>.
\<close>

theorem huge_override_not_clamped:
  "py_int ''3000000000'' = Inr 3000000000 \<and>
   init_dialog [''orca_xyz2inp_nprocs'' \<mapsto> ''3000000000'']
     \<lparr>current_mol = None, current_file_path = None\<rparr>
   = Inl OverflowError \<and>
   init_dialog [''orca_xyz2inp_maxcore'' \<mapsto> ''3000000000'']
     \<lparr>current_mol = None, current_file_path = None\<rparr>
   = Inl OverflowError \<and>
   init_dialog [''orca_xyz2inp_nprocs'' \<mapsto> ''2147483647'']
     \<lparr>current_mol = None, current_file_path = None\<rparr>
   = Inr (\<lparr>le_template = [], le_suffix = [],
           sb_charge = \<lparr>sb_min = - 10, sb_max = 10, sb_value = 0\<rparr>,
           sb_mult = \<lparr>sb_min = 1, sb_max = 10, sb_value = 1\<rparr>,
           sb_nprocs = \<lparr>sb_min = 1, sb_max = 128, sb_value = 128\<rparr>,
           sb_maxcore = \<lparr>sb_min = 100, sb_max = 100000, sb_value = 1000\<rparr>\<rparr>, []) \<and>
   init_dialog [''orca_xyz2inp_nprocs'' \<mapsto> ''many'']
     \<lparr>current_mol = None, current_file_path = None\<rparr>
   = Inr (\<lparr>le_template = [], le_suffix = [],
           sb_charge = \<lparr>sb_min = - 10, sb_max = 10, sb_value = 0\<rparr>,
           sb_mult = \<lparr>sb_min = 1, sb_max = 10, sb_value = 1\<rparr>,
           sb_nprocs = \<lparr>sb_min = 1, sb_max = 128, sb_value = 1\<rparr>,
           sb_maxcore = \<lparr>sb_min = 100, sb_max = 100000, sb_value = 1000\<rparr>\<rparr>, [])"
  by (simp add: init_dialog_eq load_defaults_def then_do_def env_override_def setValue_def
        estimate_def bound_def
        c_int_ok_def py_int_def int_isspace_def parse_unsigned_def is_digit_def digit_val_def)

text \<open>
  The values that do reach the fields. When every override that \<open>int\<close> accepts fits a
  C++ \<open>int\<close>, the dialog is built and its four values lie in the ranges of the fields:
  an override is brought into 1..128 or 100..100000, the formal charge into -10..10, the
  radical count plus one into 1..10; a variable that is not set or is refused leaves the
  built-in default. Whenever the dialog is built its values lie in the ranges
  (\<open>init_dialog_in_bounds\<close>), and \<open>generate_file\<close> reads these four values.
\<close>

lemma loaded_values_clamped:
  assumes "\<forall>s v. environ ''orca_xyz2inp_nprocs'' = Some s \<longrightarrow> py_int s = Inr v \<longrightarrow> c_int_ok v"
    and "\<forall>s v. environ ''orca_xyz2inp_maxcore'' = Some s \<longrightarrow> py_int s = Inr v \<longrightarrow> c_int_ok v"
  shows "\<exists>d out.
           init_dialog environ mw = Inr (d, out) \<and>
           in_bounds d \<and>
           sb_value (sb_nprocs d) =
             (case environ ''orca_xyz2inp_nprocs'' of
                None \<Rightarrow> 1
              | Some s \<Rightarrow> (case py_int s of Inl e \<Rightarrow> 1 | Inr v \<Rightarrow> max 1 (min 128 v))) \<and>
           sb_value (sb_maxcore d) =
             (case environ ''orca_xyz2inp_maxcore'' of
                None \<Rightarrow> 1000
              | Some s \<Rightarrow> (case py_int s of Inl e \<Rightarrow> 1000 | Inr v \<Rightarrow> max 100 (min 100000 v))) \<and>
           sb_value (sb_charge d) =
             (case current_mol mw of
                None \<Rightarrow> 0
              | Some mol \<Rightarrow> max (- 10) (min 10 (sint (formal_charge mol)))) \<and>
           sb_value (sb_mult d) =
             (case current_mol mw of
                None \<Rightarrow> 1
              | Some mol \<Rightarrow>
                  if c_int_ok (num_radical_electrons mol + 1)
                  then max 1 (min 10 (num_radical_electrons mol + 1)) else 1)"
proof -
  let ?NP = "''orca_xyz2inp_nprocs''" and ?MC = "''orca_xyz2inp_maxcore''"
  let ?np0 = "\<lparr>sb_min = 1, sb_max = 128, sb_value = 1\<rparr>"
  let ?mc0 = "\<lparr>sb_min = 100, sb_max = 100000, sb_value = 1000\<rparr>"
  let ?npv = "case environ ?NP of None \<Rightarrow> 1
              | Some s \<Rightarrow> (case py_int s of Inl e \<Rightarrow> 1 | Inr v \<Rightarrow> max 1 (min 128 v))"
  let ?mcv = "case environ ?MC of None \<Rightarrow> 1000
              | Some s \<Rightarrow> (case py_int s of Inl e \<Rightarrow> 1000 | Inr v \<Rightarrow> max 100 (min 100000 v))"
  have np: "env_override environ ?NP ?np0 = Inr (?np0\<lparr>sb_value := ?npv\<rparr>)"
  proof (cases "environ ?NP")
    case None
    then show ?thesis by (simp add: env_override_unset)
  next
    case (Some s)
    show ?thesis
    proof (cases "py_int s")
      case (Inl e)
      then have "py_int s = Inl ValueError" using py_int_error by blast
      with Some show ?thesis by (simp add: env_override_malformed)
    next
      case (Inr v)
      with Some assms(1) have "c_int_ok v" by blast
      with Some Inr show ?thesis by (simp add: env_override_fits bound_def)
    qed
  qed
  have mc: "env_override environ ?MC ?mc0 = Inr (?mc0\<lparr>sb_value := ?mcv\<rparr>)"
  proof (cases "environ ?MC")
    case None
    then show ?thesis by (simp add: env_override_unset)
  next
    case (Some s)
    show ?thesis
    proof (cases "py_int s")
      case (Inl e)
      then have "py_int s = Inl ValueError" using py_int_error by blast
      with Some show ?thesis by (simp add: env_override_malformed)
    next
      case (Inr v)
      with Some assms(2) have "c_int_ok v" by blast
      with Some Inr show ?thesis by (simp add: env_override_fits bound_def)
    qed
  qed
  let ?d1 = "\<lparr>le_template = [], le_suffix = [],
              sb_charge = \<lparr>sb_min = - 10, sb_max = 10, sb_value = 0\<rparr>,
              sb_mult = \<lparr>sb_min = 1, sb_max = 10, sb_value = 1\<rparr>,
              sb_nprocs = ?np0\<lparr>sb_value := ?npv\<rparr>,
              sb_maxcore = ?mc0\<lparr>sb_value := ?mcv\<rparr>\<rparr>"
  have i: "init_dialog environ mw = Inr (estimate mw ?d1)"
    unfolding init_dialog_eq by (simp add: load_defaults_def then_do_def np mc)
  let ?d = "fst (estimate mw ?d1)"
  have e: "init_dialog environ mw = Inr (?d, snd (estimate mw ?d1))"
    using i by simp
  have vn: "sb_value (sb_nprocs ?d) = ?npv" by (simp add: estimate_keeps)
  have vm: "sb_value (sb_maxcore ?d) = ?mcv" by (simp add: estimate_keeps)
  have vc: "sb_value (sb_charge ?d) =
             (case current_mol mw of None \<Rightarrow> 0
              | Some mol \<Rightarrow> max (- 10) (min 10 (sint (formal_charge mol))))"
    by (cases "current_mol mw") (simp_all add: estimate_no_mol estimate_charge bound_def)
  have vu: "sb_value (sb_mult ?d) =
             (case current_mol mw of None \<Rightarrow> 1
              | Some mol \<Rightarrow>
                  if c_int_ok (num_radical_electrons mol + 1)
                  then max 1 (min 10 (num_radical_electrons mol + 1)) else 1)"
    by (cases "current_mol mw") (simp_all add: estimate_no_mol estimate_mult bound_def)
  have bn: "1 \<le> ?npv \<and> ?npv \<le> 128" by (simp split: option.splits sum.splits)
  have bm: "100 \<le> ?mcv \<and> ?mcv \<le> 100000" by (simp split: option.splits sum.splits)
  have b: "in_bounds ?d"
    unfolding in_bounds_def vn vm vc vu using bn bm
    by (simp split: option.splits)
  from e b vn vm vc vu show ?thesis by blast
qed

lemma loaded_values_clamped_example:
  "init_dialog [''orca_xyz2inp_nprocs'' \<mapsto> ''500'', ''orca_xyz2inp_maxcore'' \<mapsto> ''50'']
     \<lparr>current_mol = Some \<lparr>formal_charge = - 12,
        radical_electrons = [4, 4, 4], xyz_block = []\<rparr>,
      current_file_path = None\<rparr>
   = Inr (\<lparr>le_template = [], le_suffix = [],
           sb_charge = \<lparr>sb_min = - 10, sb_max = 10, sb_value = - 10\<rparr>,
           sb_mult = \<lparr>sb_min = 1, sb_max = 10, sb_value = 10\<rparr>,
           sb_nprocs = \<lparr>sb_min = 1, sb_max = 128, sb_value = 128\<rparr>,
           sb_maxcore = \<lparr>sb_min = 100, sb_max = 100000, sb_value = 100\<rparr>\<rparr>, []) \<and>
   in_bounds
     \<lparr>le_template = [], le_suffix = [],
      sb_charge = \<lparr>sb_min = - 10, sb_max = 10, sb_value = - 10\<rparr>,
      sb_mult = \<lparr>sb_min = 1, sb_max = 10, sb_value = 10\<rparr>,
      sb_nprocs = \<lparr>sb_min = 1, sb_max = 128, sb_value = 128\<rparr>,
      sb_maxcore = \<lparr>sb_min = 100, sb_max = 100000, sb_value = 100\<rparr>\<rparr>"
proof -
  let ?env = "[''orca_xyz2inp_nprocs'' \<mapsto> ''500'', ''orca_xyz2inp_maxcore'' \<mapsto> ''50'']"
  have p: "py_int ''500'' = Inr 500" "py_int ''50'' = Inr 50"
    by (simp_all add: py_int_def int_isspace_def parse_unsigned_def is_digit_def digit_val_def)
  have h1: "\<forall>s v. ?env ''orca_xyz2inp_nprocs'' = Some s \<longrightarrow> py_int s = Inr v \<longrightarrow> c_int_ok v"
    using p by (auto simp: c_int_ok_def)
  have h2: "\<forall>s v. ?env ''orca_xyz2inp_maxcore'' = Some s \<longrightarrow> py_int s = Inr v \<longrightarrow> c_int_ok v"
    using p by (auto simp: c_int_ok_def)
  have i: "init_dialog ?env
     \<lparr>current_mol = Some \<lparr>formal_charge = - 12,
        radical_electrons = [4, 4, 4], xyz_block = []\<rparr>,
      current_file_path = None\<rparr>
   = Inr (\<lparr>le_template = [], le_suffix = [],
           sb_charge = \<lparr>sb_min = - 10, sb_max = 10, sb_value = - 10\<rparr>,
           sb_mult = \<lparr>sb_min = 1, sb_max = 10, sb_value = 10\<rparr>,
           sb_nprocs = \<lparr>sb_min = 1, sb_max = 128, sb_value = 128\<rparr>,
           sb_maxcore = \<lparr>sb_min = 100, sb_max = 100000, sb_value = 100\<rparr>\<rparr>, [])"
    by (simp add: init_dialog_eq load_defaults_def then_do_def env_override_def estimate_def
          setValue_def c_int_ok_def bound_def num_radical_electrons_def p)
  show ?thesis
    using loaded_values_clamped [OF h1 h2, of
        "\<lparr>current_mol = Some \<lparr>formal_charge = - 12,
            radical_electrons = [4, 4, 4], xyz_block = []\<rparr>,
          current_file_path = None\<rparr>"]
    unfolding i by auto
qed

end
